theory Spec2Isabelle
  imports Complex_Main
begin

section \<open>Strings\<close>

text \<open>
  Symbols are ASCII strings. \<open>toUpperCase\<close> maps the letters a-z to A-Z and leaves every
  other character alone, \<open>includes_str\<close> is JavaScript's substring test
  \<^verbatim>\<open>s.includes(t)\<close>.
\<close>

definition toUpperCase_char :: "char \<Rightarrow> char" where
  "toUpperCase_char c =
     (case map_of (zip ''abcdefghijklmnopqrstuvwxyz'' ''ABCDEFGHIJKLMNOPQRSTUVWXYZ'') c of
        Some u \<Rightarrow> u
      | None \<Rightarrow> c)"

definition toUpperCase :: "string \<Rightarrow> string" where
  "toUpperCase s = map toUpperCase_char s"

fun startsWith :: "string \<Rightarrow> string \<Rightarrow> bool" where
  "startsWith s [] = True"
| "startsWith [] (d # t) = False"
| "startsWith (c # s) (d # t) = (c = d \<and> startsWith s t)"

fun includes_str :: "string \<Rightarrow> string \<Rightarrow> bool" where
  "includes_str [] t = (t = [])"
| "includes_str (c # s) t = (startsWith (c # s) t \<or> includes_str s t)"

section \<open>The step size database (step-size-database.js)\<close>

record stepSizeInfo =
  stepSize :: string
  precision :: int
  minQty :: string
  maxQty :: string

definition STEP_SIZE_DATABASE :: "(string \<times> stepSizeInfo) list" where
  "STEP_SIZE_DATABASE = [
  (''BTCUSDT'', \<lparr>stepSize = ''0.001'', precision = 3, minQty = ''0.001'', maxQty = ''1000''\<rparr>),
  (''ETHUSDT'', \<lparr>stepSize = ''0.001'', precision = 3, minQty = ''0.001'', maxQty = ''10000''\<rparr>),
  (''LTCUSDT'', \<lparr>stepSize = ''0.001'', precision = 3, minQty = ''0.001'', maxQty = ''10000''\<rparr>),
  (''BCHUSDT'', \<lparr>stepSize = ''0.001'', precision = 3, minQty = ''0.001'', maxQty = ''10000''\<rparr>),
  (''ETCUSDT'', \<lparr>stepSize = ''0.001'', precision = 3, minQty = ''0.001'', maxQty = ''10000''\<rparr>),
  (''TRXUSDT'', \<lparr>stepSize = ''0.001'', precision = 3, minQty = ''0.001'', maxQty = ''10000''\<rparr>),
  (''LINKUSDT'', \<lparr>stepSize = ''0.001'', precision = 3, minQty = ''0.001'', maxQty = ''10000''\<rparr>),
  (''UNIUSDT'', \<lparr>stepSize = ''0.001'', precision = 3, minQty = ''0.001'', maxQty = ''10000''\<rparr>),
  (''ATOMUSDT'', \<lparr>stepSize = ''0.001'', precision = 3, minQty = ''0.001'', maxQty = ''10000''\<rparr>),
  (''NEARUSDT'', \<lparr>stepSize = ''0.001'', precision = 3, minQty = ''0.001'', maxQty = ''10000''\<rparr>),
  (''FTMUSDT'', \<lparr>stepSize = ''0.001'', precision = 3, minQty = ''0.001'', maxQty = ''10000''\<rparr>),
  (''ALGOUSDT'', \<lparr>stepSize = ''0.001'', precision = 3, minQty = ''0.001'', maxQty = ''10000''\<rparr>),
  (''VETUSDT'', \<lparr>stepSize = ''0.001'', precision = 3, minQty = ''0.001'', maxQty = ''10000''\<rparr>),
  (''ICPUSDT'', \<lparr>stepSize = ''0.001'', precision = 3, minQty = ''0.001'', maxQty = ''10000''\<rparr>),
  (''FILUSDT'', \<lparr>stepSize = ''0.001'', precision = 3, minQty = ''0.001'', maxQty = ''10000''\<rparr>),
  (''APTUSDT'', \<lparr>stepSize = ''0.001'', precision = 3, minQty = ''0.001'', maxQty = ''10000''\<rparr>),
  (''SUIUSDT'', \<lparr>stepSize = ''0.001'', precision = 3, minQty = ''0.001'', maxQty = ''10000''\<rparr>),
  (''ARBUSDT'', \<lparr>stepSize = ''0.001'', precision = 3, minQty = ''0.001'', maxQty = ''10000''\<rparr>),
  (''OPUSDT'', \<lparr>stepSize = ''0.001'', precision = 3, minQty = ''0.001'', maxQty = ''10000''\<rparr>),
  (''INJUSDT'', \<lparr>stepSize = ''0.001'', precision = 3, minQty = ''0.001'', maxQty = ''10000''\<rparr>),
  (''SEIUSDT'', \<lparr>stepSize = ''0.001'', precision = 3, minQty = ''0.001'', maxQty = ''10000''\<rparr>),
  (''TIAUSDT'', \<lparr>stepSize = ''0.001'', precision = 3, minQty = ''0.001'', maxQty = ''10000''\<rparr>),
  (''WLDUSDT'', \<lparr>stepSize = ''0.001'', precision = 3, minQty = ''0.001'', maxQty = ''10000''\<rparr>),
  (''PENDLEUSDT'', \<lparr>stepSize = ''0.001'', precision = 3, minQty = ''0.001'', maxQty = ''10000''\<rparr>),
  (''JUPUSDT'', \<lparr>stepSize = ''0.001'', precision = 3, minQty = ''0.001'', maxQty = ''10000''\<rparr>),
  (''WUSDT'', \<lparr>stepSize = ''0.001'', precision = 3, minQty = ''0.001'', maxQty = ''10000''\<rparr>),
  (''BOMEUSDT'', \<lparr>stepSize = ''0.001'', precision = 3, minQty = ''0.001'', maxQty = ''10000''\<rparr>),
  (''BONKUSDT'', \<lparr>stepSize = ''0.001'', precision = 3, minQty = ''0.001'', maxQty = ''10000''\<rparr>),
  (''WIFUSDT'', \<lparr>stepSize = ''0.001'', precision = 3, minQty = ''0.001'', maxQty = ''10000''\<rparr>),
  (''POPCATUSDT'', \<lparr>stepSize = ''0.001'', precision = 3, minQty = ''0.001'', maxQty = ''10000''\<rparr>),
  (''MYROUSDT'', \<lparr>stepSize = ''0.001'', precision = 3, minQty = ''0.001'', maxQty = ''10000''\<rparr>),
  (''FLOKIUSDT'', \<lparr>stepSize = ''0.001'', precision = 3, minQty = ''0.001'', maxQty = ''10000''\<rparr>),
  (''PEPEUSDT'', \<lparr>stepSize = ''0.001'', precision = 3, minQty = ''0.001'', maxQty = ''10000''\<rparr>),
  (''SHIBUSDT'', \<lparr>stepSize = ''0.001'', precision = 3, minQty = ''0.001'', maxQty = ''10000''\<rparr>),
  (''DOGEUSDT'', \<lparr>stepSize = ''1'', precision = 0, minQty = ''1'', maxQty = ''10000000''\<rparr>),
  (''ADAUSDT'', \<lparr>stepSize = ''1'', precision = 0, minQty = ''1'', maxQty = ''10000000''\<rparr>),
  (''AVAXUSDT'', \<lparr>stepSize = ''1'', precision = 0, minQty = ''1'', maxQty = ''300000''\<rparr>),
  (''DOTUSDT'', \<lparr>stepSize = ''1'', precision = 0, minQty = ''1'', maxQty = ''1000000''\<rparr>),
  (''MATICUSDT'', \<lparr>stepSize = ''1'', precision = 0, minQty = ''1'', maxQty = ''1000000''\<rparr>),
  (''SOLUSDT'', \<lparr>stepSize = ''0.01'', precision = 2, minQty = ''0.01'', maxQty = ''1000000''\<rparr>),
  (''BNBUSDT'', \<lparr>stepSize = ''0.01'', precision = 2, minQty = ''0.01'', maxQty = ''100000''\<rparr>),
  (''XRPUSDT'', \<lparr>stepSize = ''0.1'', precision = 1, minQty = ''0.1'', maxQty = ''1000000''\<rparr>),
  (''ASTERUSDT'', \<lparr>stepSize = ''0.01'', precision = 2, minQty = ''0.01'', maxQty = ''2000000''\<rparr>),
  (''USDCUSDT'', \<lparr>stepSize = ''0.01'', precision = 2, minQty = ''0.01'', maxQty = ''1000000''\<rparr>),
  (''USDTUSDT'', \<lparr>stepSize = ''0.01'', precision = 2, minQty = ''0.01'', maxQty = ''1000000''\<rparr>),
  (''BUSDUSDT'', \<lparr>stepSize = ''0.01'', precision = 2, minQty = ''0.01'', maxQty = ''1000000''\<rparr>),
  (''TUSDUSDT'', \<lparr>stepSize = ''0.01'', precision = 2, minQty = ''0.01'', maxQty = ''1000000''\<rparr>),
  (''USDDUSDT'', \<lparr>stepSize = ''0.01'', precision = 2, minQty = ''0.01'', maxQty = ''1000000''\<rparr>),
  (''FDUSDUSDT'', \<lparr>stepSize = ''0.01'', precision = 2, minQty = ''0.01'', maxQty = ''1000000''\<rparr>),
  (''TUSDTUSDT'', \<lparr>stepSize = ''0.01'', precision = 2, minQty = ''0.01'', maxQty = ''1000000''\<rparr>),
  (''USDFUSDT'', \<lparr>stepSize = ''0.01'', precision = 2, minQty = ''0.01'', maxQty = ''1000000''\<rparr>),
  (''USDCEUSDT'', \<lparr>stepSize = ''0.01'', precision = 2, minQty = ''0.01'', maxQty = ''1000000''\<rparr>),
  (''USDBCUSDT'', \<lparr>stepSize = ''0.01'', precision = 2, minQty = ''0.01'', maxQty = ''1000000''\<rparr>),
  (''USD1USDT'', \<lparr>stepSize = ''0.01'', precision = 2, minQty = ''0.01'', maxQty = ''1000000''\<rparr>),
  (''VUSDTUSDT'', \<lparr>stepSize = ''0.01'', precision = 2, minQty = ''0.01'', maxQty = ''1000000''\<rparr>),
  (''CUSDTUSDT'', \<lparr>stepSize = ''0.01'', precision = 2, minQty = ''0.01'', maxQty = ''1000000''\<rparr>),
  (''LISUSDUSDT'', \<lparr>stepSize = ''0.01'', precision = 2, minQty = ''0.01'', maxQty = ''1000000''\<rparr>),
  (''BONUSUSDUSDT'', \<lparr>stepSize = ''0.01'', precision = 2, minQty = ''0.01'', maxQty = ''1000000''\<rparr>),
  (''CDLUSDT'', \<lparr>stepSize = ''0.01'', precision = 2, minQty = ''0.01'', maxQty = ''1000000''\<rparr>),
  (''TWTUSDT'', \<lparr>stepSize = ''0.01'', precision = 2, minQty = ''0.01'', maxQty = ''1000000''\<rparr>),
  (''FORMUSDT'', \<lparr>stepSize = ''0.01'', precision = 2, minQty = ''0.01'', maxQty = ''1000000''\<rparr>),
  (''LISTAUSDT'', \<lparr>stepSize = ''0.01'', precision = 2, minQty = ''0.01'', maxQty = ''1000000''\<rparr>),
  (''JLPUSDT'', \<lparr>stepSize = ''0.01'', precision = 2, minQty = ''0.01'', maxQty = ''1000000''\<rparr>),
  (''STONEUSDT'', \<lparr>stepSize = ''0.01'', precision = 2, minQty = ''0.01'', maxQty = ''1000000''\<rparr>),
  (''RSETHUSDT'', \<lparr>stepSize = ''0.01'', precision = 2, minQty = ''0.01'', maxQty = ''1000000''\<rparr>),
  (''WBETHUSDT'', \<lparr>stepSize = ''0.01'', precision = 2, minQty = ''0.01'', maxQty = ''1000000''\<rparr>),
  (''ASBNBUSDT'', \<lparr>stepSize = ''0.01'', precision = 2, minQty = ''0.01'', maxQty = ''1000000''\<rparr>),
  (''SLISBNBUSDT'', \<lparr>stepSize = ''0.01'', precision = 2, minQty = ''0.01'', maxQty = ''1000000''\<rparr>),
  (''FBTCUSDT'', \<lparr>stepSize = ''0.01'', precision = 2, minQty = ''0.01'', maxQty = ''1000000''\<rparr>),
  (''SOLVBTCUSDT'', \<lparr>stepSize = ''0.01'', precision = 2, minQty = ''0.01'', maxQty = ''1000000''\<rparr>),
  (''PUMPBTCUSDT'', \<lparr>stepSize = ''0.01'', precision = 2, minQty = ''0.01'', maxQty = ''1000000''\<rparr>),
  (''CAKEUSDT'', \<lparr>stepSize = ''0.01'', precision = 2, minQty = ''0.01'', maxQty = ''1000000''\<rparr>)
  ]"

definition getStepSizeInfo :: "string \<Rightarrow> stepSizeInfo option" where
  "getStepSizeInfo symbol = map_of STEP_SIZE_DATABASE (toUpperCase symbol)"

definition getPrecisionFromDatabase :: "string \<Rightarrow> int" where
  "getPrecisionFromDatabase symbol =
     (case getStepSizeInfo symbol of Some info \<Rightarrow> precision info | None \<Rightarrow> 2)"

definition getStepSizeFromDatabase :: "string \<Rightarrow> string option" where
  "getStepSizeFromDatabase symbol =
     (case getStepSizeInfo symbol of Some info \<Rightarrow> Some (stepSize info) | None \<Rightarrow> None)"

definition isSymbolInDatabase :: "string \<Rightarrow> bool" where
  "isSymbolInDatabase symbol = (toUpperCase symbol \<in> set (map fst STEP_SIZE_DATABASE))"

section \<open>The precision cache (precision-manager.js)\<close>

text \<open>
  A precision is a JavaScript value. Every precision the program computes is an integer
  (a constant of the database or of the pattern rules, the loop counter of the retry
  ladder, a result of \<^verbatim>\<open>Math.round\<close>) or NaN (from a step size that does not parse),
  so a stored value is \<open>PInt n\<close> or \<open>PNaN\<close>. The cache is the plain object
  \<^verbatim>\<open>this.precisionCache\<close>, created by \<^verbatim>\<open>{}\<close> or by \<^verbatim>\<open>JSON.parse\<close>; the map
  holds its own properties, keyed by the symbol string as given (a cache file is one
  that the program wrote). A read
  \<^verbatim>\<open>this.precisionCache[symbol]\<close> finds the own property of that name or, when there
  is none, the member of that name of \<^verbatim>\<open>Object.prototype\<close>: a function, or the
  prototype object itself for \<^verbatim>\<open>__proto__\<close>. Such a member is the third kind of
  value, \<open>PMember\<close> with its name. \<^verbatim>\<open>savePrecisionCache\<close> writes the image of the
  cache to a file and swallows every failure, it does not change the cache.
\<close>

datatype pval = PNaN | PInt int | PMember string

type_synonym precisionCache = "string \<rightharpoonup> pval"

definition objectPrototypeMembers :: "string list" where
  "objectPrototypeMembers =
     [''constructor'', ''__defineGetter__'', ''__defineSetter__'', ''hasOwnProperty'',
      ''__lookupGetter__'', ''__lookupSetter__'', ''isPrototypeOf'', ''propertyIsEnumerable'',
      ''toString'', ''valueOf'', ''__proto__'', ''toLocaleString'']"

text \<open>\<^verbatim>\<open>this.precisionCache[symbol]\<close>; \<open>None\<close> is undefined.\<close>

definition readCache :: "precisionCache \<Rightarrow> string \<Rightarrow> pval option" where
  "readCache cache symbol =
     (case cache symbol of
        Some v \<Rightarrow> Some v
      | None \<Rightarrow> if symbol \<in> set objectPrototypeMembers then Some (PMember symbol) else None)"

text \<open>
  \<^verbatim>\<open>if (this.precisionCache[symbol])\<close>: undefined, NaN and 0 are falsy, every other
  number, a function and an object are truthy.
\<close>

fun truthy :: "pval option \<Rightarrow> bool" where
  "truthy None = False"
| "truthy (Some PNaN) = False"
| "truthy (Some (PInt n)) = (n \<noteq> 0)"
| "truthy (Some (PMember m)) = True"

definition patternPrecision :: "string \<Rightarrow> int" where
  "patternPrecision symbol =
     (let symbolUpper = toUpperCase symbol in
      if includes_str symbolUpper ''BTC'' \<or> includes_str symbolUpper ''ETH'' then 3
      else if includes_str symbolUpper ''ASTER'' \<or> includes_str symbolUpper ''SOL''
              \<or> includes_str symbolUpper ''BNB'' then 2
      else if includes_str symbolUpper ''XRP'' then 1
      else if includes_str symbolUpper ''ADA'' \<or> includes_str symbolUpper ''DOGE''
              \<or> includes_str symbolUpper ''AVAX'' then 0
      else 2)"

definition getPrecision :: "precisionCache \<Rightarrow> string \<Rightarrow> pval" where
  "getPrecision cache symbol =
     (case readCache cache symbol of
        Some v \<Rightarrow>
          if truthy (Some v) then v
          else if isSymbolInDatabase symbol then PInt (getPrecisionFromDatabase symbol)
          else PInt (patternPrecision symbol)
      | None \<Rightarrow>
          if isSymbolInDatabase symbol then PInt (getPrecisionFromDatabase symbol)
          else PInt (patternPrecision symbol))"

text \<open>
  \<^verbatim>\<open>this.precisionCache[symbol] = precision\<close> for a number: the assignment creates or
  overwrites the own property. For the name \<^verbatim>\<open>__proto__\<close> without an own property
  it reaches the setter of \<^verbatim>\<open>Object.prototype\<close> instead, which ignores a number.
\<close>

definition setPrecision :: "precisionCache \<Rightarrow> string \<Rightarrow> pval \<Rightarrow> precisionCache" where
  "setPrecision cache symbol p =
     (if symbol = ''__proto__'' \<and> cache symbol = None then cache else cache(symbol \<mapsto> p))"

section \<open>JavaScript numbers\<close>

text \<open>
  A number is an IEEE 754 binary64 value: NaN, an infinity, or a finite double, which is
  carried as the real number it denotes. The sign of zero is not tracked (the two zeros
  compare equal; a division by zero is taken with the sign of the numerator, as for +0).
  \<open>fl\<close> rounds a real to the nearest double, ties to even: 53 significant bits, the
  exponent of the least normal binade for the subnormals, an infinity when the rounded
  value reaches \<open>2^1024\<close>.
\<close>

datatype number = NaN | PInf | NInf | Fin real

function ilog2_up :: "real \<Rightarrow> int" where
  "ilog2_up x = (if 2 \<le> x then ilog2_up (x / 2) + 1 else 0)"
  by pat_completeness auto
termination
proof (relation "measure (\<lambda>x. nat \<lfloor>x\<rfloor>)")
  show "wf (measure (\<lambda>x::real. nat \<lfloor>x\<rfloor>))" by simp
next
  fix x :: real assume "2 \<le> x"
  then have "\<lfloor>x / 2\<rfloor> < \<lfloor>x\<rfloor>" by linarith
  moreover have "0 < \<lfloor>x\<rfloor>" using \<open>2 \<le> x\<close> by linarith
  ultimately show "(x / 2, x) \<in> measure (\<lambda>x. nat \<lfloor>x\<rfloor>)" by simp
qed

function ilog2_down :: "real \<Rightarrow> int" where
  "ilog2_down x = (if 0 < x \<and> x < 1 then ilog2_down (2 * x) - 1 else 0)"
  by pat_completeness auto
termination
proof (relation "measure (\<lambda>x. nat \<lceil>1 / x\<rceil>)")
  show "wf (measure (\<lambda>x::real. nat \<lceil>1 / x\<rceil>))" by simp
next
  fix x :: real assume a: "0 < x \<and> x < 1"
  define y where "y = 1 / x"
  have y: "1 < y" using a by (simp add: y_def)
  have c1: "y \<le> real_of_int \<lceil>y\<rceil>" by (rule le_of_int_ceiling)
  have "2 \<le> \<lceil>y\<rceil>" using y by linarith
  then have c2: "2 \<le> real_of_int \<lceil>y\<rceil>" by simp
  have "y / 2 \<le> real_of_int \<lceil>y\<rceil> - 1" using c1 c2 by linarith
  then have "y / 2 \<le> of_int (\<lceil>y\<rceil> - 1)" by simp
  then have lt: "\<lceil>y / 2\<rceil> < \<lceil>y\<rceil>" by (simp add: ceiling_less_iff)
  have pos: "0 < \<lceil>y\<rceil>" using y by linarith
  have e: "1 / (2 * x) = y / 2" by (simp add: y_def)
  have "nat \<lceil>y / 2\<rceil> < nat \<lceil>y\<rceil>" using lt pos by linarith
  then have "nat \<lceil>1 / (2 * x)\<rceil> < nat \<lceil>1 / x\<rceil>" by (simp only: e flip: y_def)
  then show "(2 * x, x) \<in> measure (\<lambda>x. nat \<lceil>1 / x\<rceil>)"
    by (simp only: in_measure)
qed

declare ilog2_up.simps [simp del] ilog2_down.simps [simp del]

text \<open>The binary exponent of a positive real: \<open>2 ^ ilog2 x \<le> x < 2 ^ (ilog2 x + 1)\<close>.\<close>

definition ilog2 :: "real \<Rightarrow> int" where
  "ilog2 x = (if 1 \<le> x then ilog2_up x else ilog2_down x)"

definition round_ties_even :: "real \<Rightarrow> int" where
  "round_ties_even x =
     (let f = \<lfloor>x\<rfloor>; d = x - of_int f in
      if d < 1 / 2 then f
      else if 1 / 2 < d then f + 1
      else if even f then f else f + 1)"

definition fl :: "real \<Rightarrow> number" where
  "fl x =
     (if x = 0 then Fin 0
      else
        let e = max (ilog2 \<bar>x\<bar>) (- 1022);
            u = 2 powi (e - 52);
            y = of_int (round_ties_even (x / u)) * u
        in if 1024 \<le> ilog2 \<bar>y\<bar> then (if 0 < x then PInf else NInf) else Fin y)"

fun num_neg :: "number \<Rightarrow> number" where
  "num_neg NaN = NaN"
| "num_neg PInf = NInf"
| "num_neg NInf = PInf"
| "num_neg (Fin x) = Fin (- x)"

text \<open>\<^verbatim>\<open>a * b\<close> and \<^verbatim>\<open>a / b\<close>.\<close>

fun num_mul :: "number \<Rightarrow> number \<Rightarrow> number" where
  "num_mul NaN b = NaN"
| "num_mul a NaN = NaN"
| "num_mul (Fin x) (Fin y) = fl (x * y)"
| "num_mul (Fin x) b = (if x = 0 then NaN else if 0 < x then b else num_neg b)"
| "num_mul a (Fin y) = (if y = 0 then NaN else if 0 < y then a else num_neg a)"
| "num_mul a b = (if a = b then PInf else NInf)"

fun num_div :: "number \<Rightarrow> number \<Rightarrow> number" where
  "num_div NaN b = NaN"
| "num_div a NaN = NaN"
| "num_div (Fin x) (Fin y) =
     (if y = 0 then (if x = 0 then NaN else if 0 < x then PInf else NInf)
      else fl (x / y))"
| "num_div (Fin x) b = Fin 0"
| "num_div a (Fin y) = (if 0 \<le> y then a else num_neg a)"
| "num_div a b = NaN"

text \<open>\<^verbatim>\<open>a <= b\<close> and \<^verbatim>\<open>a >= b\<close>: false when either side is NaN.\<close>

fun num_le :: "number \<Rightarrow> number \<Rightarrow> bool" where
  "num_le NaN b = False"
| "num_le a NaN = False"
| "num_le (Fin x) (Fin y) = (x \<le> y)"
| "num_le NInf b = True"
| "num_le a PInf = True"
| "num_le a b = False"

definition num_ge :: "number \<Rightarrow> number \<Rightarrow> bool" where
  "num_ge a b = num_le b a"

text \<open>\<^verbatim>\<open>!s\<close> on a number: NaN and zero are falsy.\<close>

fun falsy :: "number \<Rightarrow> bool" where
  "falsy NaN = True"
| "falsy (Fin x) = (x = 0)"
| "falsy a = False"

fun Math_floor :: "number \<Rightarrow> number" where
  "Math_floor (Fin x) = Fin (of_int \<lfloor>x\<rfloor>)"
| "Math_floor a = a"

text \<open>\<^verbatim>\<open>Math.round\<close> rounds to the nearest integer, a tie towards plus infinity.\<close>

fun Math_round :: "number \<Rightarrow> number" where
  "Math_round (Fin x) = Fin (of_int \<lfloor>x + 1 / 2\<rfloor>)"
| "Math_round a = a"

fun Math_max :: "number \<Rightarrow> number \<Rightarrow> number" where
  "Math_max NaN b = NaN"
| "Math_max a NaN = NaN"
| "Math_max a b = (if num_le a b then b else a)"

text \<open>
  \<^verbatim>\<open>Math.log10\<close> is the real logarithm; the rounding of its result to a double is not
  modelled. The program only ever rounds the result to an integer with
  \<^verbatim>\<open>Math.round\<close>, which gives the same integer unless the logarithm lies within a
  unit in the last place of a half-integer: for the step size 0.31622776601683794, next
  to \<open>10^(-1/2)\<close>, the program has the precision 1 and the model 0. No statement below
  is about a step size that close to an odd power of the square root of 10.
\<close>

fun Math_log10 :: "number \<Rightarrow> number" where
  "Math_log10 (Fin x) = (if x < 0 then NaN else if x = 0 then NInf else Fin (log 10 x))"
| "Math_log10 PInf = PInf"
| "Math_log10 a = NaN"

text \<open>
  \<^verbatim>\<open>Math.pow(10, precision)\<close>. For an integer the model takes the correctly rounded
  power. The engine's \<^verbatim>\<open>Math.pow\<close> is exact for the powers up to \<open>10^22\<close>, which are
  doubles, but it is not correctly rounded for every larger or negative exponent (in V8
  not for 26 and 29, for instance); no statement below depends on the value of a power.
  Any other value of the precision (NaN, a function, an object) converts to NaN.
\<close>

fun Math_pow10 :: "pval \<Rightarrow> number" where
  "Math_pow10 (PInt p) = fl (10 powi p)"
| "Math_pow10 v = NaN"

section \<open>Thrown values\<close>

text \<open>
  A thrown value is an error object with a message and, when it comes from the HTTP
  layer, a \<^verbatim>\<open>response\<close> whose \<^verbatim>\<open>data\<close> is the venue's payload, or it is null or
  undefined. Of the payload the program reads \<^verbatim>\<open>code\<close> and \<^verbatim>\<open>msg\<close>: the code is
  \<open>Some n\<close> when it is the number \<open>n\<close> and \<open>None\<close> otherwise (absent, or not a number),
  the message is \<open>Some s\<close> when it is the string \<open>s\<close> and \<open>None\<close> when it is absent.
\<close>

datatype errorData = ErrorData (code: "int option") (msg: "string option")

datatype errorResponse = Response (data: "errorData option")

datatype error =
    Error (message: string) (response: "errorResponse option")
  | ThrownNull
  | ThrownUndefined

definition TypeError :: "string \<Rightarrow> error" where
  "TypeError m = Error m None"

definition RangeError :: error where
  "RangeError = Error ''toFixed() digits argument must be between 0 and 100'' None"

text \<open>
  The test both catch blocks make:
  \<^verbatim>\<open>error.response && error.response.data && error.response.data.code === -1111 &&
  error.response.data.msg.includes('Precision is over the maximum')\<close>.
  It is true or false, or it throws a TypeError itself: when the thrown value is null or
  undefined, and when the code is -1111 and there is no message.
\<close>

fun precisionTest :: "error \<Rightarrow> error + bool" where
  "precisionTest ThrownNull =
     Inl (TypeError ''Cannot read properties of null (reading 'response')'')"
| "precisionTest ThrownUndefined =
     Inl (TypeError ''Cannot read properties of undefined (reading 'response')'')"
| "precisionTest (Error m None) = Inr False"
| "precisionTest (Error m (Some (Response None))) = Inr False"
| "precisionTest (Error m (Some (Response (Some (ErrorData c ms))))) =
     (if c = Some (- 1111) then
        (case ms of
           None \<Rightarrow> Inl (TypeError ''Cannot read properties of undefined (reading 'includes')'')
         | Some s \<Rightarrow> Inr (includes_str s ''Precision is over the maximum''))
      else Inr False)"

definition isPrecisionError :: "error \<Rightarrow> bool" where
  "isPrecisionError e = (precisionTest e = Inr True)"

definition isOtherError :: "error \<Rightarrow> bool" where
  "isOtherError e = (precisionTest e = Inr False)"

section \<open>Numbers and strings: parseFloat and toFixed\<close>

definition isDigit :: "char \<Rightarrow> bool" where
  "isDigit c = (c \<in> set ''0123456789'')"

definition isWhiteSpace :: "char \<Rightarrow> bool" where
  "isWhiteSpace c = ((of_char c :: nat) \<in> {9, 10, 11, 12, 13, 32, 160})"

definition digitsValue :: "string \<Rightarrow> nat" where
  "digitsValue ds = foldl (\<lambda>n c. 10 * n + (of_char c - 48)) 0 ds"

text \<open>The exponent part \<^verbatim>\<open>e[+-]digits\<close> of a decimal literal; 0 when there is none.\<close>

definition exponentPart :: "string \<Rightarrow> int" where
  "exponentPart r =
     (case r of
        [] \<Rightarrow> 0
      | c # r1 \<Rightarrow>
          if c = CHR ''e'' \<or> c = CHR ''E'' then
            (case r1 of
               [] \<Rightarrow> 0
             | d # r2 \<Rightarrow>
                 if d = CHR ''-'' then
                   (if takeWhile isDigit r2 = [] then 0
                    else - int (digitsValue (takeWhile isDigit r2)))
                 else if d = CHR ''+'' then int (digitsValue (takeWhile isDigit r2))
                 else int (digitsValue (takeWhile isDigit r1)))
          else 0)"

text \<open>
  The longest prefix of a string that is a decimal literal (sign, digits, fraction,
  exponent, or Infinity) after the leading white space, with its mathematical value.
\<close>

datatype literal = NoLiteral | InfinityLiteral bool | DecimalLiteral real

definition strDecimalLiteral :: "string \<Rightarrow> literal" where
  "strDecimalLiteral inputString =
     (let t = dropWhile isWhiteSpace inputString;
          negative = startsWith t ''-'';
          t1 = (if startsWith t ''-'' \<or> startsWith t ''+'' then tl t else t)
      in
        if startsWith t1 ''Infinity'' then InfinityLiteral negative
        else
          let ip = takeWhile isDigit t1;
              r1 = dropWhile isDigit t1;
              fp = (if startsWith r1 ''.'' then takeWhile isDigit (tl r1) else []);
              r2 = (if startsWith r1 ''.'' then dropWhile isDigit (tl r1) else r1)
          in
            if ip = [] \<and> fp = [] then NoLiteral
            else
              let m = real (digitsValue (ip @ fp)) * 10 powi (exponentPart r2 - int (length fp))
              in DecimalLiteral (if negative then - m else m))"

text \<open>
  \<^verbatim>\<open>parseFloat\<close>: the value of that literal rounded to a double; NaN when the
  string does not start with one.
\<close>

definition parseFloat :: "string \<Rightarrow> number" where
  "parseFloat inputString =
     (case strDecimalLiteral inputString of
        NoLiteral \<Rightarrow> NaN
      | InfinityLiteral negative \<Rightarrow> (if negative then NInf else PInf)
      | DecimalLiteral m \<Rightarrow> fl m)"

function showNat :: "nat \<Rightarrow> string" where
  "showNat n = (if n < 10 then [''0123456789'' ! n] else showNat (n div 10) @ [''0123456789'' ! (n mod 10)])"
  by pat_completeness auto
termination
  by (relation "measure (\<lambda>n. n)") auto

declare showNat.simps [simp del]

text \<open>The digits of \<open>n\<close> with a decimal point before the last \<open>f\<close> of them.\<close>

definition fixedDigits :: "nat \<Rightarrow> nat \<Rightarrow> string" where
  "fixedDigits n f =
     (let m = showNat n in
      if f = 0 then m
      else
        let m1 = (if length m \<le> f then replicate (f + 1 - length m) (CHR ''0'') @ m else m);
            k = length m1
        in take (k - f) m1 @ ''.'' @ drop (k - f) m1)"

text \<open>
  \<^verbatim>\<open>x.toFixed(fractionDigits)\<close>: a RangeError unless the digits are within 0..100; the
  integer \<open>n\<close> with \<open>n / 10^f\<close> nearest to \<open>x\<close>, the larger one on a tie, written with
  \<open>f\<close> decimals. From \<open>10^21\<close> on the method returns the number's default string, which
  is in exponent notation; the model writes all the digits of the (integral) value
  instead, which \<open>parseFloat\<close> reads as the same double.
\<close>

definition toFixed :: "number \<Rightarrow> number \<Rightarrow> error + string" where
  "toFixed x fractionDigits =
     (case fractionDigits of
        PInf \<Rightarrow> Inl RangeError
      | NInf \<Rightarrow> Inl RangeError
      | _ \<Rightarrow>
        let f = (case fractionDigits of
                   Fin d \<Rightarrow> (if 0 \<le> d then \<lfloor>d\<rfloor> else \<lceil>d\<rceil>)
                 | _ \<Rightarrow> 0)
        in
          if f < 0 \<or> 100 < f then Inl RangeError
          else
            (case x of
               NaN \<Rightarrow> Inr ''NaN''
             | PInf \<Rightarrow> Inr ''Infinity''
             | NInf \<Rightarrow> Inr ''-Infinity''
             | Fin v \<Rightarrow>
                 Inr ((if v < 0 then ''-'' else '''') @
                      (if 10 ^ 21 \<le> \<bar>v\<bar> then showNat (nat \<lfloor>\<bar>v\<bar>\<rfloor>)
                       else fixedDigits (nat \<lfloor>\<bar>v\<bar> * 10 ^ nat f + 1 / 2\<rfloor>) (nat f)))))"

section \<open>The quantity helpers\<close>

text \<open>\<^verbatim>\<open>roundToStepFloor\<close>, \<^verbatim>\<open>ensureMinNotional\<close> (the client's utility module).\<close>

definition roundToStepFloor :: "number \<Rightarrow> string \<Rightarrow> error + number" where
  "roundToStepFloor qty step =
     (let s = parseFloat step in
      if falsy s \<or> num_le s (Fin 0) then Inr qty
      else
        let precision = Math_max (Fin 0) (Math_round (num_neg (Math_log10 s)));
            stepped = num_mul (Math_floor (num_div qty s)) s
        in case toFixed stepped precision of
             Inl e \<Rightarrow> Inl e
           | Inr str \<Rightarrow> Inr (parseFloat str))"

text \<open>\<^verbatim>\<open>parseFloat(minNotional || '0')\<close>: the empty string is falsy.\<close>

definition ensureMinNotional :: "number \<Rightarrow> number \<Rightarrow> string \<Rightarrow> string \<Rightarrow> error + number" where
  "ensureMinNotional qty price minNotional step =
     (let mn = parseFloat (if minNotional = [] then ''0'' else minNotional) in
      if falsy mn \<or> num_le mn (Fin 0) then Inr qty
      else
        let notional = num_mul qty price in
        if num_ge notional mn then Inr qty
        else
          let need = num_div mn price
          in roundToStepFloor need step)"

text \<open>\<^verbatim>\<open>PrecisionManager.roundQuantity\<close>.\<close>

definition roundQuantity :: "number \<Rightarrow> pval \<Rightarrow> number" where
  "roundQuantity quantity p =
     (let multiplier = Math_pow10 p
      in num_div (Math_floor (num_mul quantity multiplier)) multiplier)"

section \<open>Precision from live exchange metadata\<close>

text \<open>
  The value of \<^verbatim>\<open>Math.max(0, Math.round(-Math.log10(s)))\<close> as a cached precision: NaN
  or an integer.
\<close>

fun to_pval :: "number \<Rightarrow> pval" where
  "to_pval (Fin x) = PInt \<lfloor>x\<rfloor>"
| "to_pval a = PNaN"

definition calculatePrecisionFromStepSize :: "string \<Rightarrow> pval" where
  "calculatePrecisionFromStepSize step =
     (let stepSizeNum = parseFloat step in
      if num_le stepSizeNum (Fin 0) then PInt 3
      else to_pval (Math_max (Fin 0) (Math_round (num_neg (Math_log10 stepSizeNum)))))"

datatype tradingFilter = Filter (filterType: string) (filterStepSize: "string option")

datatype symbolInfo = SymbolInfo (infoSymbol: string) (infoFilters: "tradingFilter list option")

datatype exchangeInfo = ExchangeInfo (infoSymbols: "symbolInfo list option")

text \<open>\<^verbatim>\<open>filters?.find(f => f.filterType === t)?.stepSize\<close>.\<close>

definition stepSizeOfFilter :: "symbolInfo \<Rightarrow> string \<Rightarrow> string option" where
  "stepSizeOfFilter info t =
     (case infoFilters info of
        None \<Rightarrow> None
      | Some fs \<Rightarrow>
          (case find (\<lambda>f. filterType f = t) fs of
             None \<Rightarrow> None
           | Some f \<Rightarrow> filterStepSize f))"

definition detectPrecisionFromExchangeInfo :: "exchangeInfo \<Rightarrow> string \<Rightarrow> pval" where
  "detectPrecisionFromExchangeInfo info symbol =
     (case (case infoSymbols info of
              None \<Rightarrow> None
            | Some ss \<Rightarrow> find (\<lambda>s. infoSymbol s = symbol) ss) of
        None \<Rightarrow> PInt 3
      | Some symbolInfo \<Rightarrow>
          let marketLot = stepSizeOfFilter symbolInfo ''MARKET_LOT_SIZE'';
              lot = stepSizeOfFilter symbolInfo ''LOT_SIZE'';
              chosen = (if marketLot \<noteq> None \<and> marketLot \<noteq> Some [] then marketLot else lot)
          in
            (case chosen of
               None \<Rightarrow> PInt 3
             | Some st \<Rightarrow> if st = [] then PInt 3 else calculatePrecisionFromStepSize st))"

section \<open>The retry ladder (PrecisionManager.handlePrecisionError)\<close>

text \<open>
  The trade function is the external submission. It is a function of the rounded
  quantity and of the state of the outside world \<open>'w\<close>, which it may change; it
  returns the venue's result or throws. A run of an asynchronous method ends with a
  result or a thrown error, the cache and the world as it leaves them, and the
  quantities it submitted, in order (one entry for each call of the trade function).
\<close>

type_synonym ('r, 'w) tradeFunction = "number \<Rightarrow> 'w \<Rightarrow> (error + 'r) \<times> 'w"

record ('r, 'w) run =
  result :: "error + 'r"
  cacheAfter :: precisionCache
  worldAfter :: 'w
  attempts :: "number list"

definition showInt :: "int \<Rightarrow> string" where
  "showInt i = (if i < 0 then ''-'' @ showNat (nat (- i)) else showNat (nat i))"

text \<open>
  A precision inside a template literal: the digits of a number, the source text of a
  native function, the default string of an object.
\<close>

fun showPrecision :: "pval \<Rightarrow> string" where
  "showPrecision PNaN = ''NaN''"
| "showPrecision (PInt n) = showInt n"
| "showPrecision (PMember m) =
     (if m = ''__proto__'' then ''[object Object]''
      else ''function '' @ (if m = ''constructor'' then ''Object'' else m) @ ''() { [native code] }'')"

text \<open>
  \<^verbatim>\<open>new Error(`All precision values (${startPrecision} to 0) failed for ${symbol}`)\<close>
\<close>

definition allPrecisionsFailed :: "pval \<Rightarrow> string \<Rightarrow> error" where
  "allPrecisionsFailed startPrecision symbol =
     Error (''All precision values ('' @ showPrecision startPrecision @ '' to 0) failed for ''
            @ symbol)
       None"

text \<open>
  The loop \<^verbatim>\<open>for (let precision = startPrecision; precision >= 0; precision--)\<close>
  from the iteration at the integer precision \<open>p\<close> on. The try block rounds the
  quantity, logs it with \<^verbatim>\<open>roundedQuantity.toFixed(precision)\<close> (which throws when the
  precision is above 100) and calls the trade function; on success the precision is
  stored. The catch block makes the precision test on what was thrown: when the test is
  true the loop goes on to the next precision, when it is false the error is thrown
  again, and when the test itself throws, that TypeError leaves the method. When the
  loop runs out, the aggregate error is thrown.
\<close>

function ladder ::
  "string \<Rightarrow> number \<Rightarrow> ('r, 'w) tradeFunction \<Rightarrow> pval \<Rightarrow> int \<Rightarrow>
     precisionCache \<Rightarrow> 'w \<Rightarrow> number list \<Rightarrow> ('r, 'w) run"
where
  "ladder symbol quantity tradeFunction startPrecision p cache w submitted =
     (if 0 \<le> p then
        let roundedQuantity = roundQuantity quantity (PInt p) in
        (case toFixed roundedQuantity (Fin (real_of_int p)) of
           Inl e \<Rightarrow>
             (case precisionTest e of
                Inl typeError \<Rightarrow>
                  \<lparr>result = Inl typeError, cacheAfter = cache, worldAfter = w,
                   attempts = submitted\<rparr>
              | Inr retry \<Rightarrow>
                  if retry
                  then ladder symbol quantity tradeFunction startPrecision (p - 1) cache w submitted
                  else \<lparr>result = Inl e, cacheAfter = cache, worldAfter = w,
                        attempts = submitted\<rparr>)
         | Inr line \<Rightarrow>
             (case tradeFunction roundedQuantity w of
                (Inr res, w') \<Rightarrow>
                  \<lparr>result = Inr res, cacheAfter = setPrecision cache symbol (PInt p),
                   worldAfter = w', attempts = submitted @ [roundedQuantity]\<rparr>
              | (Inl e, w') \<Rightarrow>
                  (case precisionTest e of
                     Inl typeError \<Rightarrow>
                       \<lparr>result = Inl typeError, cacheAfter = cache, worldAfter = w',
                        attempts = submitted @ [roundedQuantity]\<rparr>
                   | Inr retry \<Rightarrow>
                       if retry
                       then ladder symbol quantity tradeFunction startPrecision (p - 1) cache w'
                              (submitted @ [roundedQuantity])
                       else \<lparr>result = Inl e, cacheAfter = cache, worldAfter = w',
                             attempts = submitted @ [roundedQuantity]\<rparr>)))
      else \<lparr>result = Inl (allPrecisionsFailed startPrecision symbol), cacheAfter = cache,
             worldAfter = w, attempts = submitted\<rparr>)"
  by pat_completeness auto
termination
  by (relation "measure (\<lambda>(symbol, quantity, tradeFunction, startPrecision, p, cache, w, submitted).
        nat (p + 1))") auto

declare ladder.simps [simp del]

text \<open>
  \<^verbatim>\<open>handlePrecisionError\<close>. When the start precision is not a number (a member of
  \<^verbatim>\<open>Object.prototype\<close>), it converts to NaN in \<^verbatim>\<open>precision >= 0\<close>, the loop does not
  run and the aggregate error is thrown at once.
\<close>

definition handlePrecisionError ::
  "string \<Rightarrow> number \<Rightarrow> ('r, 'w) tradeFunction \<Rightarrow> precisionCache \<Rightarrow> 'w \<Rightarrow> ('r, 'w) run"
where
  "handlePrecisionError symbol quantity tradeFunction cache w =
     (let startPrecision = getPrecision cache symbol in
      case startPrecision of
        PInt p0 \<Rightarrow> ladder symbol quantity tradeFunction startPrecision p0 cache w []
      | _ \<Rightarrow> \<lparr>result = Inl (allPrecisionsFailed startPrecision symbol), cacheAfter = cache,
               worldAfter = w, attempts = []\<rparr>)"

definition getSmartQuantity :: "precisionCache \<Rightarrow> string \<Rightarrow> number \<Rightarrow> number" where
  "getSmartQuantity cache symbol quantity = roundQuantity quantity (getPrecision cache symbol)"

section \<open>Smart order placement (AsterdexClient.placeMarketOrderSmart)\<close>

text \<open>
  \<open>placeMarketOrder\<close> is the signed order request for the symbol, the side and the
  reduce-only flag of the call, as a function of the quantity; \<open>getExchangeInfo\<close> is the
  metadata request. Both are external and act on the world. The outer catch block makes
  the precision test on the error of the first submission; the inner one, around the
  detection pass, takes whatever is thrown there and lets the ladder follow.
\<close>

definition afterAttempts :: "number list \<Rightarrow> ('r, 'w) run \<Rightarrow> ('r, 'w) run" where
  "afterAttempts qs r = r\<lparr>attempts := qs @ attempts r\<rparr>"

definition placeMarketOrderSmart ::
  "string \<Rightarrow> number \<Rightarrow> ('r, 'w) tradeFunction \<Rightarrow> ('w \<Rightarrow> (error + exchangeInfo) \<times> 'w) \<Rightarrow>
     precisionCache \<Rightarrow> 'w \<Rightarrow> ('r, 'w) run"
where
  "placeMarketOrderSmart symbol quantity placeMarketOrder getExchangeInfo cache w =
     (let smartQuantity = getSmartQuantity cache symbol quantity in
      case placeMarketOrder smartQuantity w of
        (Inr res, w1) \<Rightarrow>
          \<lparr>result = Inr res, cacheAfter = cache, worldAfter = w1, attempts = [smartQuantity]\<rparr>
      | (Inl e, w1) \<Rightarrow>
          (case precisionTest e of
             Inl typeError \<Rightarrow>
               \<lparr>result = Inl typeError, cacheAfter = cache, worldAfter = w1,
                attempts = [smartQuantity]\<rparr>
           | Inr precisionError \<Rightarrow>
               if precisionError then
                 (case getExchangeInfo w1 of
                    (Inl detectionError, w2) \<Rightarrow>
                      afterAttempts [smartQuantity]
                        (handlePrecisionError symbol quantity placeMarketOrder cache w2)
                  | (Inr info, w2) \<Rightarrow>
                      let detectedPrecision = detectPrecisionFromExchangeInfo info symbol;
                          cache1 = setPrecision cache symbol detectedPrecision;
                          detectedQuantity = getSmartQuantity cache1 symbol quantity
                      in
                        (case placeMarketOrder detectedQuantity w2 of
                           (Inr res, w3) \<Rightarrow>
                             \<lparr>result = Inr res, cacheAfter = cache1, worldAfter = w3,
                              attempts = [smartQuantity, detectedQuantity]\<rparr>
                         | (Inl detectionError, w3) \<Rightarrow>
                             afterAttempts [smartQuantity, detectedQuantity]
                               (handlePrecisionError symbol quantity placeMarketOrder cache1 w3)))
               else \<lparr>result = Inl e, cacheAfter = cache, worldAfter = w1,
                     attempts = [smartQuantity]\<rparr>))"

section \<open>Properties as definitions\<close>

text \<open>
  The pattern rules as the ordered list of the specification: each rule is a list of
  substrings and a precision, the first rule with a substring that the uppercased symbol
  contains decides, and the precision is 2 when no rule matches.
\<close>

definition precisionRules :: "(string list \<times> int) list" where
  "precisionRules =
     [([''BTC'', ''ETH''], 3),
      ([''ASTER'', ''SOL'', ''BNB''], 2),
      ([''XRP''], 1),
      ([''ADA'', ''DOGE'', ''AVAX''], 0)]"

definition firstMatchingRule :: "string \<Rightarrow> int" where
  "firstMatchingRule upper =
     (case find (\<lambda>rule. \<exists>t \<in> set (fst rule). includes_str upper t) precisionRules of
        Some rule \<Rightarrow> snd rule
      | None \<Rightarrow> 2)"

text \<open>
  Every submission of the ladder from precision \<open>p\<close> down to 0, started in world \<open>w\<close>,
  is rejected with a precision error.
\<close>

function allRejected :: "('r, 'w) tradeFunction \<Rightarrow> number \<Rightarrow> int \<Rightarrow> 'w \<Rightarrow> bool" where
  "allRejected tradeFunction quantity p w =
     (if 0 \<le> p then
        (case tradeFunction (roundQuantity quantity (PInt p)) w of
           (Inl e, w') \<Rightarrow> isPrecisionError e \<and> allRejected tradeFunction quantity (p - 1) w'
         | (Inr res, w') \<Rightarrow> False)
      else True)"
  by pat_completeness auto
termination
  by (relation "measure (\<lambda>(tradeFunction, quantity, p, w). nat (p + 1))") auto

declare allRejected.simps [simp del]

section \<open>Example venues\<close>

text \<open>
  The cache of a process that found no cache file, the venue's precision rejection and
  another rejection, a venue that rejects its first \<open>k\<close> submissions with the precision
  error and accepts the following ones (its state is the number of submissions it has
  seen), a venue that rejects every submission, and metadata replies.
\<close>

definition emptyCache :: precisionCache where
  "emptyCache = Map.empty"

definition precisionRejection :: error where
  "precisionRejection =
     Error ''Request failed with status code 400''
       (Some (Response (Some (ErrorData (Some (- 1111))
          (Some ''Precision is over the maximum defined for this asset.'')))))"

definition marginRejection :: error where
  "marginRejection =
     Error ''Request failed with status code 400''
       (Some (Response (Some (ErrorData (Some (- 2019)) (Some ''Margin is insufficient.'')))))"

definition rejectFirst :: "nat \<Rightarrow> (unit, nat) tradeFunction" where
  "rejectFirst k quantity seen =
     (if seen < k then Inl precisionRejection else Inr (), Suc seen)"

definition rejectAll :: "(unit, nat) tradeFunction" where
  "rejectAll quantity seen = (Inl precisionRejection, Suc seen)"



definition bareRejection :: error where
  "bareRejection =
     Error ''Request failed with status code 400''
       (Some (Response (Some (ErrorData (Some (- 1111)) None))))"

definition replyInfo :: "exchangeInfo \<Rightarrow> nat \<Rightarrow> (error + exchangeInfo) \<times> nat" where
  "replyInfo info seen = (Inr info, seen)"

definition btcInfo :: exchangeInfo where
  "btcInfo = ExchangeInfo (Some [SymbolInfo ''BTCUSDT'' (Some [Filter ''LOT_SIZE'' (Some ''0.01'')])])"

definition newInfo :: exchangeInfo where
  "newInfo =
     ExchangeInfo (Some [SymbolInfo ''NEWUSDT'' (Some [Filter ''LOT_SIZE'' (Some ''0.00000001'')])])"

section \<open>Strings and the database\<close>

lemma startsWith_iff: "startsWith s t \<longleftrightarrow> (\<exists>b. s = t @ b)"
  by (induction s t rule: startsWith.induct) auto

text \<open>\<open>includes_str\<close> is the substring relation.\<close>

lemma includes_str_iff: "includes_str s t \<longleftrightarrow> (\<exists>a b. s = a @ t @ b)"
proof (induction s)
  case Nil
  then show ?case by auto
next
  case (Cons c s)
  show ?case
  proof
    assume "includes_str (c # s) t"
    then consider "startsWith (c # s) t" | "includes_str s t" by auto
    then show "\<exists>a b. c # s = a @ t @ b"
    proof cases
      case 1
      then obtain b where "c # s = t @ b" using startsWith_iff by blast
      then have "c # s = [] @ t @ b" by simp
      then show ?thesis by blast
    next
      case 2
      then obtain a b where "s = a @ t @ b" using Cons.IH by blast
      then have "c # s = (c # a) @ t @ b" by simp
      then show ?thesis by blast
    qed
  next
    assume "\<exists>a b. c # s = a @ t @ b"
    then obtain a b where ab: "c # s = a @ t @ b" by blast
    show "includes_str (c # s) t"
    proof (cases a)
      case Nil
      then have "startsWith (c # s) t" using ab startsWith_iff by auto
      then show ?thesis by simp
    next
      case (Cons d a')
      then have "s = a' @ t @ b" using ab by simp
      then have "includes_str s t" using Cons.IH by blast
      then show ?thesis by simp
    qed
  qed
qed

lemma toUpperCase_char_idem: "toUpperCase_char (toUpperCase_char c) = toUpperCase_char c"
  by (simp add: toUpperCase_char_def)

lemma toUpperCase_idem: "toUpperCase (toUpperCase s) = toUpperCase s"
  by (simp add: toUpperCase_def toUpperCase_char_idem)

lemma database_uppercase:
  "isSymbolInDatabase (toUpperCase s) = isSymbolInDatabase s"
  "getPrecisionFromDatabase (toUpperCase s) = getPrecisionFromDatabase s"
  by (simp_all add: isSymbolInDatabase_def getPrecisionFromDatabase_def getStepSizeInfo_def
      toUpperCase_idem)

lemma patternPrecision_rules: "patternPrecision s = firstMatchingRule (toUpperCase s)"
  by (simp add: patternPrecision_def firstMatchingRule_def precisionRules_def Let_def)

text \<open>
  A symbol in upper case is never the name of a member of \<^verbatim>\<open>Object.prototype\<close> (each
  name has the letter e or the letter o), so the \<^verbatim>\<open>in\<close> test and the index of the
  database, which use the uppercased symbol, see the own keys of the database only.
\<close>

lemma toUpperCase_no_lower:
  assumes "c \<in> set ''abcdefghijklmnopqrstuvwxyz''"
  shows "c \<notin> set (toUpperCase s)"
proof
  assume "c \<in> set (toUpperCase s)"
  then obtain d where "c = toUpperCase_char d" by (auto simp: toUpperCase_def)
  then show False using assms
    by (simp add: toUpperCase_char_def split: if_splits)
qed

lemma toUpperCase_not_member: "toUpperCase s \<notin> set objectPrototypeMembers"
proof
  assume m: "toUpperCase s \<in> set objectPrototypeMembers"
  have "CHR ''e'' \<notin> set (toUpperCase s)" "CHR ''o'' \<notin> set (toUpperCase s)"
    by (rule toUpperCase_no_lower, simp)+
  moreover have "\<forall>m \<in> set objectPrototypeMembers. CHR ''e'' \<in> set m \<or> CHR ''o'' \<in> set m"
    by (simp add: objectPrototypeMembers_def)
  ultimately show False using m by blast
qed

lemma readCache_own: "s \<notin> set objectPrototypeMembers \<Longrightarrow> readCache c s = c s"
  by (simp add: readCache_def split: option.splits)

lemma readCache_member:
  "s \<in> set objectPrototypeMembers \<Longrightarrow> c s = None \<Longrightarrow> readCache c s = Some (PMember s)"
  by (simp add: readCache_def)

text \<open>Without a truthy read the database and then the pattern rules decide.\<close>

lemma getPrecision_uncached:
  "\<not> truthy (readCache c s) \<Longrightarrow>
     getPrecision c s =
       PInt (if isSymbolInDatabase s then getPrecisionFromDatabase s else patternPrecision s)"
  by (auto simp: getPrecision_def split: option.splits)

lemma getPrecision_uncached_own:
  "s \<notin> set objectPrototypeMembers \<Longrightarrow> \<not> truthy (c s) \<Longrightarrow>
     getPrecision c s =
       PInt (if isSymbolInDatabase s then getPrecisionFromDatabase s else patternPrecision s)"
  by (simp add: getPrecision_uncached readCache_own)

text \<open>A truthy read is returned as it is.\<close>

lemma getPrecision_truthy:
  "readCache c s = Some v \<Longrightarrow> truthy (Some v) \<Longrightarrow> getPrecision c s = v"
  by (simp add: getPrecision_def)

lemma setPrecision_written:
  "s \<noteq> ''__proto__'' \<or> c s \<noteq> None \<Longrightarrow> setPrecision c s v = c(s \<mapsto> v)"
  by (auto simp: setPrecision_def)

lemma getPrecision_cached:
  "n \<noteq> 0 \<Longrightarrow> s \<noteq> ''__proto__'' \<or> c s \<noteq> None \<Longrightarrow>
     getPrecision (setPrecision c s (PInt n)) s = PInt n"
  by (simp add: setPrecision_written getPrecision_def readCache_def)

text \<open>A start precision that is a number comes with a cache that the ladder can write.\<close>

lemma getPrecision_number_writable:
  assumes "getPrecision c s = PInt n"
  shows "s \<noteq> ''__proto__'' \<or> c s \<noteq> None"
proof (rule ccontr)
  assume "\<not> (s \<noteq> ''__proto__'' \<or> c s \<noteq> None)"
  then have "readCache c s = Some (PMember s)"
    by (simp add: readCache_def objectPrototypeMembers_def)
  then have "getPrecision c s = PMember s" by (simp add: getPrecision_def)
  with assms show False by simp
qed

lemma database_BTCUSDT:
  "isSymbolInDatabase ''BTCUSDT''" "getPrecisionFromDatabase ''BTCUSDT'' = 3"
  by (simp_all add: isSymbolInDatabase_def getPrecisionFromDatabase_def getStepSizeInfo_def
      STEP_SIZE_DATABASE_def toUpperCase_def toUpperCase_char_def)

lemma precisionTest_examples:
  "precisionTest precisionRejection = Inr True"
  "precisionTest marginRejection = Inr False"
  "precisionTest bareRejection
     = Inl (TypeError ''Cannot read properties of undefined (reading 'includes')'')"
  by (simp_all add: precisionRejection_def marginRejection_def bareRejection_def)

text \<open>
  The precision test on a payload with a number as code and a string as message, and on
  errors without a payload.
\<close>

lemma precisionTest_payload:
  "precisionTest (Error m (Some (Response (Some (ErrorData (Some cd) (Some ms))))))
     = Inr (cd = - 1111 \<and> includes_str ms ''Precision is over the maximum'')"
  "precisionTest (Error m (Some (Response (Some (ErrorData None mo))))) = Inr False"
  "precisionTest (Error m (Some (Response None))) = Inr False"
  "precisionTest (Error m None) = Inr False"
  by simp_all

lemma precisionTest_code_or_message_only:
  "precisionTest (Error m (Some (Response (Some (ErrorData (Some (- 1111))
      (Some ''Invalid quantity.''))))))
     = Inr False"
  "precisionTest (Error m (Some (Response (Some (ErrorData (Some (- 2019))
      (Some ''Precision is over the maximum defined for this asset.''))))))
     = Inr False"
  "precisionTest ThrownNull
     = Inl (TypeError ''Cannot read properties of null (reading 'response')'')"
  by simp_all

lemma isPrecisionError_examples:
  "isPrecisionError precisionRejection" "isOtherError marginRejection"
  "\<not> isPrecisionError marginRejection"
  by (simp_all add: isPrecisionError_def isOtherError_def precisionTest_examples)

section \<open>Evaluating numbers\<close>

lemmas fl_simps = fl_def ilog2_def ilog2_up.simps ilog2_down.simps round_ties_even_def

lemma replicate_numeral: "replicate (numeral k) x = x # replicate (pred_numeral k) x"
  by (simp add: numeral_eq_Suc)

lemmas toFixed_simps = toFixed_def fixedDigits_def showNat.simps Let_def replicate_numeral

text \<open>
  \<open>Math.round(-Math.log10(s))\<close> is \<open>k\<close> when \<open>10^(-k-1/2) < s \<le> 10^(-k+1/2)\<close>, which is
  decided on the squares.
\<close>

lemma floor_neg_log10:
  fixes s :: real and k :: int
  assumes s: "0 < s" and lo: "10 powi (- (2 * k + 1)) < s ^ 2" and hi: "s ^ 2 \<le> 10 powi (1 - 2 * k)"
  shows "\<lfloor>- log 10 s + 1 / 2\<rfloor> = k"
proof -
  have s2: "0 < s ^ 2" using s by simp
  have l2: "log 10 (s ^ 2) = 2 * log 10 s" using s by (simp add: log_nat_power)
  have p1: "(10::real) powi (- (2 * k + 1)) = 10 powr real_of_int (- (2 * k + 1))"
    by (rule powr_real_of_int'[symmetric]) simp_all
  have p2: "(10::real) powi (1 - 2 * k) = 10 powr real_of_int (1 - 2 * k)"
    by (rule powr_real_of_int'[symmetric]) simp_all
  have "real_of_int (- (2 * k + 1)) < log 10 (s ^ 2)"
    using lo s2 unfolding p1 by (simp add: powr_less_iff)
  then have a: "- log 10 s + 1 / 2 < real_of_int k + 1" unfolding l2 by simp
  have "log 10 (s ^ 2) \<le> real_of_int (1 - 2 * k)"
    using hi s2 unfolding p2 by (simp add: le_powr_iff)
  then have b: "real_of_int k \<le> - log 10 s + 1 / 2" unfolding l2 by simp
  show ?thesis using a b by (simp add: floor_eq_iff)
qed

lemma precision_eval:
  assumes "0 < s" "10 powi (- (2 * k + 1)) < s ^ 2" "s ^ 2 \<le> 10 powi (1 - 2 * k)"
  shows "Math_round (num_neg (Math_log10 (Fin s))) = Fin (of_int k)"
  using assms floor_neg_log10[OF assms] by simp

lemma precision_max_eval:
  assumes "0 < s" "10 powi (- (2 * k + 1)) < s ^ 2" "s ^ 2 \<le> 10 powi (1 - 2 * k)" "0 \<le> k"
  shows "Math_max (Fin 0) (Math_round (num_neg (Math_log10 (Fin s)))) = Fin (of_int k)"
  unfolding precision_eval[OF assms(1-3)] using assms(4) by simp

text \<open>\<open>roundToStepFloor\<close> once the step string is parsed and its precision is known.\<close>

lemma roundToStepFloor_eval:
  assumes "parseFloat step = Fin s" and "0 < s"
    and "Math_max (Fin 0) (Math_round (num_neg (Math_log10 (Fin s)))) = Fin (real_of_int k)"
    and "num_div qty (Fin s) = d" and "num_mul (Math_floor d) (Fin s) = m"
    and "toFixed m (Fin (real_of_int k)) = Inr str"
  shows "roundToStepFloor qty step = Inr (parseFloat str)"
  unfolding roundToStepFloor_def assms(1) Let_def assms(3) assms(4) assms(5) assms(6)
  using assms(2) by simp

text \<open>The binary exponent is the one of the binade of the number.\<close>

lemma ilog2_up_bounds:
  "1 \<le> x \<Longrightarrow> 2 powi (ilog2_up x) \<le> x \<and> x < 2 powi (ilog2_up x + 1)"
proof (induction x rule: ilog2_up.induct)
  case (1 x)
  show ?case
  proof (cases "2 \<le> x")
    case True
    then have "1 \<le> x / 2" by simp
    with "1.IH"[OF True] have ih: "2 powi (ilog2_up (x / 2)) \<le> x / 2"
      "x / 2 < 2 powi (ilog2_up (x / 2) + 1)" by simp_all
    have e: "ilog2_up x = ilog2_up (x / 2) + 1" using True by (subst ilog2_up.simps) simp
    have "(2::real) powi (ilog2_up (x / 2) + 1) = 2 powi (ilog2_up (x / 2)) * 2"
      by (simp add: power_int_add)
    moreover have "(2::real) powi (ilog2_up (x / 2) + 1 + 1) = 2 powi (ilog2_up (x / 2) + 1) * 2"
      by (simp add: power_int_add)
    ultimately show ?thesis using ih unfolding e by simp
  next
    case False
    then have "ilog2_up x = 0" by (subst ilog2_up.simps) simp
    then show ?thesis using False "1.prems" by simp
  qed
qed

lemma ilog2_down_bounds:
  "0 < x \<Longrightarrow> x < 1 \<Longrightarrow> 2 powi (ilog2_down x) \<le> x \<and> x < 2 powi (ilog2_down x + 1)"
proof (induction x rule: ilog2_down.induct)
  case (1 x)
  have e: "ilog2_down x = ilog2_down (2 * x) - 1"
    using "1.prems" by (subst ilog2_down.simps) simp
  show ?case
  proof (cases "2 * x < 1")
    case True
    with "1.IH" "1.prems" have ih: "2 powi (ilog2_down (2 * x)) \<le> 2 * x"
      "2 * x < 2 powi (ilog2_down (2 * x) + 1)" by simp_all
    have "(2::real) powi (ilog2_down (2 * x)) = 2 powi (ilog2_down (2 * x) - 1) * 2"
      using power_int_add[of "2::real" "ilog2_down (2 * x) - 1" 1] by simp
    moreover have "(2::real) powi (ilog2_down (2 * x) + 1) = 2 powi (ilog2_down (2 * x)) * 2"
      by (simp add: power_int_add)
    ultimately show ?thesis using ih unfolding e by simp
  next
    case False
    then have "ilog2_down (2 * x) = 0" by (subst ilog2_down.simps) simp
    then have "ilog2_down x = - 1" using e by simp
    then show ?thesis using False "1.prems" by simp
  qed
qed

lemma ilog2_bounds: "0 < x \<Longrightarrow> 2 powi (ilog2 x) \<le> x \<and> x < 2 powi (ilog2 x + 1)"
  using ilog2_up_bounds[of x] ilog2_down_bounds[of x] by (simp add: ilog2_def)

text \<open>
  After the guard \<^verbatim>\<open>stepSizeNum <= 0\<close> the value of
  \<^verbatim>\<open>Math.max(0, Math.round(-Math.log10(s)))\<close> is NaN (for NaN) or a non-negative
  integer, so \<open>to_pval\<close> loses nothing.
\<close>

lemma precision_number_shape:
  assumes "\<not> num_le s (Fin 0)"
  shows "(s = NaN \<and> Math_max (Fin 0) (Math_round (num_neg (Math_log10 s))) = NaN)
    \<or> (\<exists>k. 0 \<le> k \<and> Math_max (Fin 0) (Math_round (num_neg (Math_log10 s))) = Fin (of_int k))"
proof (cases s)
  case NaN
  then show ?thesis by simp
next
  case PInf
  then have "Math_max (Fin 0) (Math_round (num_neg (Math_log10 s))) = Fin (of_int 0)" by simp
  then show ?thesis by blast
next
  case NInf
  then show ?thesis using assms by simp
next
  case (Fin x)
  then have x: "0 < x" using assms by simp
  let ?k = "\<lfloor>- log 10 x + 1 / 2\<rfloor>"
  have r: "Math_round (num_neg (Math_log10 s)) = Fin (of_int ?k)" using Fin x by simp
  show ?thesis
  proof (cases "0 \<le> ?k")
    case True
    then have "Math_max (Fin 0) (Math_round (num_neg (Math_log10 s))) = Fin (of_int ?k)"
      unfolding r by simp
    then show ?thesis using True by blast
  next
    case False
    then have "Math_max (Fin 0) (Math_round (num_neg (Math_log10 s))) = Fin (of_int 0)"
      unfolding r by simp
    then show ?thesis by blast
  qed
qed

subsection \<open>Doubles and strings evaluated\<close>

lemma literal_0_1: "strDecimalLiteral ''0.1'' = DecimalLiteral (1 / 10)"
  by code_simp

lemma parseFloat_0_1: "parseFloat ''0.1'' = Fin (3602879701896397 / 36028797018963968)"
  by (simp add: parseFloat_def literal_0_1 fl_simps)

lemma literal_0_2: "strDecimalLiteral ''0.2'' = DecimalLiteral (1 / 5)"
  by code_simp

lemma parseFloat_0_2: "parseFloat ''0.2'' = Fin (3602879701896397 / 18014398509481984)"
  by (simp add: parseFloat_def literal_0_2 fl_simps)

lemma literal_0_3: "strDecimalLiteral ''0.3'' = DecimalLiteral (3 / 10)"
  by code_simp

lemma parseFloat_0_3: "parseFloat ''0.3'' = Fin (5404319552844595 / 18014398509481984)"
  by (simp add: parseFloat_def literal_0_3 fl_simps)

lemma literal_0_5: "strDecimalLiteral ''0.5'' = DecimalLiteral (1 / 2)"
  by code_simp

lemma parseFloat_0_5: "parseFloat ''0.5'' = Fin (1 / 2)"
  by (simp add: parseFloat_def literal_0_5 fl_simps)

lemma literal_1: "strDecimalLiteral ''1'' = DecimalLiteral (1)"
  by code_simp

lemma parseFloat_1: "parseFloat ''1'' = Fin 1"
  by (simp add: parseFloat_def literal_1 fl_simps)

lemma literal_5: "strDecimalLiteral ''5'' = DecimalLiteral (5)"
  by code_simp

lemma parseFloat_5: "parseFloat ''5'' = Fin 5"
  by (simp add: parseFloat_def literal_5 fl_simps)

lemma literal_0_01: "strDecimalLiteral ''0.01'' = DecimalLiteral (1 / 100)"
  by code_simp

lemma parseFloat_0_01: "parseFloat ''0.01'' = Fin (5764607523034235 / 576460752303423488)"
  by (simp add: parseFloat_def literal_0_01 fl_simps)

lemma literal_1e_8: "strDecimalLiteral ''0.00000001'' = DecimalLiteral (1 / 100000000)"
  by code_simp

lemma parseFloat_1e_8: "parseFloat ''0.00000001'' = Fin (3022314549036573 / 302231454903657293676544)"
  by (simp add: parseFloat_def literal_1e_8 fl_simps)

lemma literal_1e_6: "strDecimalLiteral ''0.000001'' = DecimalLiteral (1 / 1000000)"
  by code_simp

lemma parseFloat_1e_6: "parseFloat ''0.000001'' = Fin (4722366482869645 / 4722366482869645213696)"
  by (simp add: parseFloat_def literal_1e_6 fl_simps)

lemma literal_3e_6: "strDecimalLiteral ''0.000003'' = DecimalLiteral (3 / 1000000)"
  by code_simp

lemma parseFloat_3e_6: "parseFloat ''0.000003'' = Fin (1770887431076117 / 590295810358705651712)"
  by (simp add: parseFloat_def literal_3e_6 fl_simps)

lemma fl_0_35: "fl (35 / 100) = Fin (3152519739159347 / 9007199254740992)"
  by (simp add: fl_simps)

lemma fl_0_3: "fl (3 / 10) = Fin (5404319552844595 / 18014398509481984)"
  by (simp add: fl_simps)

lemma fl_0_2: "fl (2 / 10) = Fin (3602879701896397 / 18014398509481984)"
  by (simp add: fl_simps)

lemma fl_0_75: "fl (75 / 100) = Fin (3 / 4)"
  by (simp add: fl_simps)

lemma fl_3e_6: "fl (3 / 1000000) = Fin (1770887431076117 / 590295810358705651712)"
  by (simp add: fl_simps)

lemma fl_1e_4: "fl (1 / 10000) = Fin (7378697629483821 / 73786976294838206464)"
  by (simp add: fl_simps)

lemma fl_1e_3: "fl (1 / 1000) = Fin (1152921504606847 / 1152921504606846976)"
  by (simp add: fl_simps)

lemma fl_50000: "fl 50000 = Fin 50000"
  by (simp add: fl_simps)

lemma fl_below_3e_6: "fl (29999999999999997 / 10 ^ 22) = Fin (7083549724304467 / 2361183241434822606848)"
  by (simp add: fl_simps)

lemma precision_0_1: "Math_max (Fin 0) (Math_round (num_neg (Math_log10 (Fin (3602879701896397 / 36028797018963968))))) = Fin (real_of_int 1)"
  by (rule precision_max_eval) (simp_all add: power2_eq_square)

lemma precision_0_5: "Math_max (Fin 0) (Math_round (num_neg (Math_log10 (Fin (1 / 2))))) = Fin (real_of_int 0)"
  by (rule precision_max_eval) (simp_all add: power2_eq_square)

lemma precision_0_01: "Math_max (Fin 0) (Math_round (num_neg (Math_log10 (Fin (5764607523034235 / 576460752303423488))))) = Fin (real_of_int 2)"
  by (rule precision_max_eval) (simp_all add: power2_eq_square)

lemma precision_1e_8: "Math_max (Fin 0) (Math_round (num_neg (Math_log10 (Fin (3022314549036573 / 302231454903657293676544))))) = Fin (real_of_int 8)"
  by (rule precision_max_eval) (simp_all add: power2_eq_square)

lemma precision_1e_6: "Math_max (Fin 0) (Math_round (num_neg (Math_log10 (Fin (4722366482869645 / 4722366482869645213696))))) = Fin (real_of_int 6)"
  by (rule precision_max_eval) (simp_all add: power2_eq_square)

subsection \<open>The steps of roundToStepFloor at the inputs below\<close>

lemma step_0_35_div: "num_div (Fin (3152519739159347 / 9007199254740992)) (Fin (3602879701896397 / 36028797018963968)) = Fin (7881299347898367 / 2251799813685248)"
  by (simp add: fl_simps)

lemma step_0_35_mul: "num_mul (Math_floor (Fin (7881299347898367 / 2251799813685248))) (Fin (3602879701896397 / 36028797018963968)) = Fin (1351079888211149 / 4503599627370496)"
  by (simp add: fl_simps)

lemma step_0_35_fix: "toFixed (Fin (1351079888211149 / 4503599627370496)) (Fin (real_of_int 1)) = Inr ''0.3''"
  by (simp add: toFixed_simps)

lemma step_0_3_div: "num_div (Fin (5404319552844595 / 18014398509481984)) (Fin (3602879701896397 / 36028797018963968)) = Fin (6755399441055743 / 2251799813685248)"
  by (simp add: fl_simps)

lemma step_0_3_mul: "num_mul (Math_floor (Fin (6755399441055743 / 2251799813685248))) (Fin (3602879701896397 / 36028797018963968)) = Fin (3602879701896397 / 18014398509481984)"
  by (simp add: fl_simps)

lemma step_0_3_fix: "toFixed (Fin (3602879701896397 / 18014398509481984)) (Fin (real_of_int 1)) = Inr ''0.2''"
  by (simp add: toFixed_simps)

lemma step_0_75_div: "num_div (Fin (3 / 4)) (Fin (1 / 2)) = Fin (3 / 2)"
  by (simp add: fl_simps)

lemma step_0_75_mul: "num_mul (Math_floor (Fin (3 / 2))) (Fin (1 / 2)) = Fin (1 / 2)"
  by (simp add: fl_simps)

lemma step_0_75_fix: "toFixed (Fin (1 / 2)) (Fin (real_of_int 0)) = Inr ''1''"
  by (simp add: toFixed_simps)

lemma step_3e_6_div: "num_div (Fin (7083549724304467 / 2361183241434822606848)) (Fin (4722366482869645 / 4722366482869645213696)) = Fin 3"
  by (simp add: fl_simps)

lemma step_3e_6_mul: "num_mul (Math_floor (Fin 3)) (Fin (4722366482869645 / 4722366482869645213696)) = Fin (1770887431076117 / 590295810358705651712)"
  by (simp add: fl_simps)

lemma step_3e_6_fix: "toFixed (Fin (1770887431076117 / 590295810358705651712)) (Fin (real_of_int 6)) = Inr ''0.000003''"
  by (simp add: toFixed_simps)

lemma notional_tie: "num_mul (Fin (7378697629483821 / 73786976294838206464)) (Fin 50000) = Fin 5"
  by (simp add: fl_simps)

section \<open>The loop of the ladder, step by step\<close>

lemma toFixed_Inl: "toFixed x d = Inl e \<Longrightarrow> e = RangeError"
  by (auto simp: toFixed_def Let_def split: number.splits if_splits)

lemma RangeError_test: "precisionTest RangeError = Inr False"
  by (simp add: RangeError_def)

lemma toFixed_in_range:
  "0 \<le> p \<Longrightarrow> p \<le> 100 \<Longrightarrow> \<exists>line. toFixed x (Fin (real_of_int p)) = Inr line"
  by (cases x) (auto simp: toFixed_def Let_def)


lemma ladder_exhausted:
  "p < 0 \<Longrightarrow> ladder symb q tf sp p c w sub =
     \<lparr>result = Inl (allPrecisionsFailed sp symb), cacheAfter = c, worldAfter = w, attempts = sub\<rparr>"
  by (subst ladder.simps) simp

lemma ladder_range:
  assumes "100 < p"
  shows "ladder symb q tf sp p c w sub =
     \<lparr>result = Inl RangeError, cacheAfter = c, worldAfter = w, attempts = sub\<rparr>"
proof -
  have "toFixed (roundQuantity q (PInt p)) (Fin (real_of_int p)) = Inl RangeError"
    using assms by (cases "roundQuantity q (PInt p)") (auto simp: toFixed_def Let_def)
  then show ?thesis
    using assms by (subst ladder.simps) (simp add: RangeError_test)
qed

lemma ladder_success:
  assumes "0 \<le> p" "p \<le> 100" "tf (roundQuantity q (PInt p)) w = (Inr res, w')"
  shows "ladder symb q tf sp p c w sub =
     \<lparr>result = Inr res, cacheAfter = setPrecision c symb (PInt p), worldAfter = w',
      attempts = sub @ [roundQuantity q (PInt p)]\<rparr>"
proof -
  obtain line where "toFixed (roundQuantity q (PInt p)) (Fin (real_of_int p)) = Inr line"
    using toFixed_in_range[OF assms(1,2)] by blast
  then show ?thesis
    using assms by (subst ladder.simps) (simp add: isPrecisionError_def isOtherError_def)
qed

lemma ladder_retry:
  assumes "0 \<le> p" "p \<le> 100" "tf (roundQuantity q (PInt p)) w = (Inl e, w')" "isPrecisionError e"
  shows "ladder symb q tf sp p c w sub =
     ladder symb q tf sp (p - 1) c w' (sub @ [roundQuantity q (PInt p)])"
proof -
  obtain line where "toFixed (roundQuantity q (PInt p)) (Fin (real_of_int p)) = Inr line"
    using toFixed_in_range[OF assms(1,2)] by blast
  then show ?thesis
    using assms by (subst ladder.simps) (simp add: isPrecisionError_def isOtherError_def)
qed

lemma ladder_rethrow:
  assumes "0 \<le> p" "p \<le> 100" "tf (roundQuantity q (PInt p)) w = (Inl e, w')" "isOtherError e"
  shows "ladder symb q tf sp p c w sub =
     \<lparr>result = Inl e, cacheAfter = c, worldAfter = w', attempts = sub @ [roundQuantity q (PInt p)]\<rparr>"
proof -
  obtain line where "toFixed (roundQuantity q (PInt p)) (Fin (real_of_int p)) = Inr line"
    using toFixed_in_range[OF assms(1,2)] by blast
  then show ?thesis
    using assms by (subst ladder.simps) (simp add: isPrecisionError_def isOtherError_def)
qed

lemma ladder_test_throws:
  assumes "0 \<le> p" "p \<le> 100" "tf (roundQuantity q (PInt p)) w = (Inl e, w')"
    "precisionTest e = Inl t"
  shows "ladder symb q tf sp p c w sub =
     \<lparr>result = Inl t, cacheAfter = c, worldAfter = w', attempts = sub @ [roundQuantity q (PInt p)]\<rparr>"
proof -
  obtain line where "toFixed (roundQuantity q (PInt p)) (Fin (real_of_int p)) = Inr line"
    using toFixed_in_range[OF assms(1,2)] by blast
  then show ?thesis
    using assms by (subst ladder.simps) simp
qed

text \<open>Induction over the iterations of the loop.\<close>

lemma ladder_induct [case_names exhausted range success retry rethrow test_throws]:
  fixes tf :: "('r, 'w) tradeFunction"
  assumes "\<And>p w sub. p < 0 \<Longrightarrow> P p w sub"
    and "\<And>p w sub. 100 < p \<Longrightarrow> P p w sub"
    and "\<And>p w sub res w'. 0 \<le> p \<Longrightarrow> p \<le> 100 \<Longrightarrow> tf (roundQuantity q (PInt p)) w = (Inr res, w') \<Longrightarrow> P p w sub"
    and "\<And>p w sub e w'. 0 \<le> p \<Longrightarrow> p \<le> 100 \<Longrightarrow> tf (roundQuantity q (PInt p)) w = (Inl e, w') \<Longrightarrow>
           isPrecisionError e \<Longrightarrow> P (p - 1) w' (sub @ [roundQuantity q (PInt p)]) \<Longrightarrow> P p w sub"
    and "\<And>p w sub e w'. 0 \<le> p \<Longrightarrow> p \<le> 100 \<Longrightarrow> tf (roundQuantity q (PInt p)) w = (Inl e, w') \<Longrightarrow>
           isOtherError e \<Longrightarrow> P p w sub"
    and "\<And>p w sub e w' t. 0 \<le> p \<Longrightarrow> p \<le> 100 \<Longrightarrow> tf (roundQuantity q (PInt p)) w = (Inl e, w') \<Longrightarrow>
           precisionTest e = Inl t \<Longrightarrow> P p w sub"
  shows "P p w sub"
proof (induction "nat (p + 1)" arbitrary: p w sub)
  case 0
  then have "p < 0" by simp
  then show ?case by (rule assms(1))
next
  case (Suc n p w sub)
  then have p: "0 \<le> p" and n: "n = nat ((p - 1) + 1)" by simp_all
  show ?case
  proof (cases "100 < p")
    case True
    then show ?thesis by (rule assms(2))
  next
    case False
    then have le: "p \<le> 100" by simp
    obtain out w' where t: "tf (roundQuantity q (PInt p)) w = (out, w')"
      by (cases "tf (roundQuantity q (PInt p)) w")
    show ?thesis
    proof (cases out)
      case (Inr res)
      then have t': "tf (roundQuantity q (PInt p)) w = (Inr res, w')" using t by simp
      show ?thesis by (rule assms(3)[OF p le t'])
    next
      case (Inl e)
      then have t': "tf (roundQuantity q (PInt p)) w = (Inl e, w')" using t by simp
      show ?thesis
      proof (cases "precisionTest e")
        case (Inl t)
        show ?thesis by (rule assms(6)[OF p le t' Inl])
      next
        case (Inr retry)
        show ?thesis
        proof (cases retry)
          case True
          then have pe: "isPrecisionError e" using Inr by (simp add: isPrecisionError_def)
          have ih: "P (p - 1) w' (sub @ [roundQuantity q (PInt p)])" using Suc.hyps(1)[OF n] .
          show ?thesis by (rule assms(4)[OF p le t' pe ih])
        next
          case False
          then have oe: "isOtherError e" using Inr by (simp add: isOtherError_def)
          show ?thesis by (rule assms(5)[OF p le t' oe])
        qed
      qed
    qed
  qed
qed

lemma ladder_attempts:
  "length (attempts (ladder symb q tf sp p c w sub)) \<le> length sub + nat (p + 1)"
proof (induction p w sub rule: ladder_induct[where tf = tf and q = q])
  case (exhausted p w sub)
  then show ?case by (simp add: ladder_exhausted)
next
  case (range p w sub)
  then show ?case by (simp add: ladder_range)
next
  case (success p w sub res w')
  then show ?case by (simp add: ladder_success)
next
  case (retry p w sub e w')
  then show ?case by (simp add: ladder_retry nat_add_distrib)
next
  case (rethrow p w sub e w')
  then show ?case by (simp add: ladder_rethrow)
next
  case (test_throws p w sub e w' t)
  then show ?case by (simp add: ladder_test_throws)
qed

lemma ladder_failure_cache:
  "result (ladder symb q tf sp p c w sub) = Inl e \<Longrightarrow>
     cacheAfter (ladder symb q tf sp p c w sub) = c"
proof (induction p w sub rule: ladder_induct[where tf = tf and q = q])
  case (exhausted p w sub)
  then show ?case by (simp add: ladder_exhausted)
next
  case (range p w sub)
  then show ?case by (simp add: ladder_range)
next
  case (success p w sub res w')
  then show ?case by (simp add: ladder_success)
next
  case (retry p w sub e' w')
  then show ?case by (simp add: ladder_retry)
next
  case (rethrow p w sub e' w')
  then show ?case by (simp add: ladder_rethrow)
next
  case (test_throws p w sub e' w' t)
  then show ?case by (simp add: ladder_test_throws)
qed

lemma ladder_success_cache:
  "result (ladder symb q tf sp p c w sub) = Inr res \<Longrightarrow>
     \<exists>p'. 0 \<le> p' \<and> p' \<le> p
        \<and> cacheAfter (ladder symb q tf sp p c w sub) = setPrecision c symb (PInt p')
        \<and> length (attempts (ladder symb q tf sp p c w sub)) = length sub + nat (p - p' + 1)"
proof (induction p w sub rule: ladder_induct[where tf = tf and q = q])
  case (exhausted p w sub)
  then show ?case by (simp add: ladder_exhausted)
next
  case (range p w sub)
  then show ?case by (simp add: ladder_range)
next
  case (success p w sub res' w')
  then show ?case by (auto simp: ladder_success intro!: exI[of _ p])
next
  case (retry p w sub e w')
  from retry.prems have "result (ladder symb q tf sp (p - 1) c w' (sub @ [roundQuantity q (PInt p)])) = Inr res"
    using retry.hyps by (simp add: ladder_retry)
  from retry.IH[OF this] obtain p' where p': "0 \<le> p'" "p' \<le> p - 1"
    "cacheAfter (ladder symb q tf sp (p - 1) c w' (sub @ [roundQuantity q (PInt p)])) =
       setPrecision c symb (PInt p')"
    "length (attempts (ladder symb q tf sp (p - 1) c w' (sub @ [roundQuantity q (PInt p)]))) =
       length (sub @ [roundQuantity q (PInt p)]) + nat (p - 1 - p' + 1)"
    by blast
  have "length sub + nat (p - p' + 1) = length (sub @ [roundQuantity q (PInt p)]) + nat (p - 1 - p' + 1)"
    using p'(1,2) by simp
  with p' retry.hyps show ?case
    by (intro exI[of _ p']) (simp add: ladder_retry)
next
  case (rethrow p w sub e w')
  then show ?case by (simp add: ladder_rethrow)
next
  case (test_throws p w sub e w' t)
  then show ?case by (simp add: ladder_test_throws)
qed

lemma ladder_allRejected:
  "allRejected tf q p w \<Longrightarrow> p \<le> 100 \<Longrightarrow>
     result (ladder symb q tf sp p c w sub) = Inl (allPrecisionsFailed sp symb)
     \<and> length (attempts (ladder symb q tf sp p c w sub)) = length sub + nat (p + 1)"
proof (induction p w sub rule: ladder_induct[where tf = tf and q = q])
  case (exhausted p w sub)
  then show ?case by (simp add: ladder_exhausted)
next
  case (range p w sub)
  then show ?case by simp
next
  case (success p w sub res w')
  from success.prems(1) success.hyps show ?case
    by (subst (asm) allRejected.simps) simp
next
  case (retry p w sub e w')
  from retry.prems(1) retry.hyps have "allRejected tf q (p - 1) w'"
    by (subst (asm) allRejected.simps) simp
  moreover have "p - 1 \<le> 100" using retry.hyps by simp
  ultimately show ?case
    using retry.IH retry.hyps by (simp add: ladder_retry nat_add_distrib)
next
  case (rethrow p w sub e w')
  from rethrow.prems(1) rethrow.hyps show ?case
    by (subst (asm) allRejected.simps) (simp add: isPrecisionError_def isOtherError_def)
next
  case (test_throws p w sub e w' t)
  from test_throws.prems(1) test_throws.hyps show ?case
    by (subst (asm) allRejected.simps) (simp add: isPrecisionError_def)
qed

lemma allRejected_rejectAll: "allRejected rejectAll q p w"
proof (induction "nat (p + 1)" arbitrary: p w)
  case 0
  then show ?case by (subst allRejected.simps) simp
next
  case (Suc n p w)
  then have "n = nat ((p - 1) + 1)" by simp
  then have "allRejected rejectAll q (p - 1) (Suc w)" by (rule Suc.hyps(1))
  then show ?case
    by (subst allRejected.simps) (simp add: rejectAll_def isPrecisionError_examples)
qed

text \<open>
  The run of Scenario E: the submissions at the precisions 3, 2 and 1 are rejected with
  precision errors and the one at 0 is accepted.
\<close>

lemma ladder_scenario_E:
  assumes "tf (roundQuantity q (PInt 3)) w = (Inl e3, w1)" "isPrecisionError e3"
    and "tf (roundQuantity q (PInt 2)) w1 = (Inl e2, w2)" "isPrecisionError e2"
    and "tf (roundQuantity q (PInt 1)) w2 = (Inl e1, w3)" "isPrecisionError e1"
    and "tf (roundQuantity q (PInt 0)) w3 = (Inr res, w4)"
  shows "ladder symb q tf sp 3 c w [] =
     \<lparr>result = Inr res, cacheAfter = setPrecision c symb (PInt 0), worldAfter = w4,
      attempts = [roundQuantity q (PInt 3), roundQuantity q (PInt 2), roundQuantity q (PInt 1), roundQuantity q (PInt 0)]\<rparr>"
proof -
  have "ladder symb q tf sp 3 c w [] = ladder symb q tf sp 2 c w1 [roundQuantity q (PInt 3)]"
    using ladder_retry[where p = 3 and tf = tf and q = q and w = w and sub = "[]", OF _ _ assms(1,2)] by simp
  also have "\<dots> = ladder symb q tf sp 1 c w2 [roundQuantity q (PInt 3), roundQuantity q (PInt 2)]"
    using ladder_retry[where p = 2 and tf = tf and q = q and w = w1 and sub = "[roundQuantity q (PInt 3)]", OF _ _ assms(3,4)] by simp
  also have "\<dots> = ladder symb q tf sp 0 c w3
      [roundQuantity q (PInt 3), roundQuantity q (PInt 2), roundQuantity q (PInt 1)]"
    using ladder_retry[where p = 1 and tf = tf and q = q and w = w2 and sub = "[roundQuantity q (PInt 3), roundQuantity q (PInt 2)]",
        OF _ _ assms(5,6)]
    by simp
  also have "\<dots> = \<lparr>result = Inr res, cacheAfter = setPrecision c symb (PInt 0), worldAfter = w4,
      attempts = [roundQuantity q (PInt 3), roundQuantity q (PInt 2), roundQuantity q (PInt 1), roundQuantity q (PInt 0)]\<rparr>"
    using ladder_success[where p = 0 and tf = tf and q = q and w = w3
        and sub = "[roundQuantity q (PInt 3), roundQuantity q (PInt 2), roundQuantity q (PInt 1)]", OF _ _ assms(7)]
    by simp
  finally show ?thesis .
qed

lemma rejectFirst_3:
  "rejectFirst 3 x 0 = (Inl precisionRejection, 1)"
  "rejectFirst 3 x 1 = (Inl precisionRejection, 2)"
  "rejectFirst 3 x 2 = (Inl precisionRejection, 3)"
  "rejectFirst 3 x 3 = (Inr (), 4)"
  by (simp_all add: rejectFirst_def)

lemma readCache_emptyCache_BTCUSDT: "readCache emptyCache ''BTCUSDT'' = None"
  by (simp add: readCache_def emptyCache_def objectPrototypeMembers_def)

lemma getPrecision_emptyCache_BTCUSDT: "getPrecision emptyCache ''BTCUSDT'' = PInt 3"
  by (simp add: getPrecision_uncached readCache_emptyCache_BTCUSDT database_BTCUSDT)

lemma scenario_E_BTCUSDT:
  "handlePrecisionError ''BTCUSDT'' q (rejectFirst 3) emptyCache 0 =
     \<lparr>result = Inr (), cacheAfter = setPrecision emptyCache ''BTCUSDT'' (PInt 0), worldAfter = 4,
      attempts = [roundQuantity q (PInt 3), roundQuantity q (PInt 2), roundQuantity q (PInt 1),
        roundQuantity q (PInt 0)]\<rparr>"
proof -
  have "ladder ''BTCUSDT'' q (rejectFirst 3) (PInt 3) 3 emptyCache 0 [] =
     \<lparr>result = Inr (), cacheAfter = setPrecision emptyCache ''BTCUSDT'' (PInt 0), worldAfter = 4,
      attempts = [roundQuantity q (PInt 3), roundQuantity q (PInt 2), roundQuantity q (PInt 1),
        roundQuantity q (PInt 0)]\<rparr>"
    by (rule ladder_scenario_E[OF rejectFirst_3(1) isPrecisionError_examples(1)
        rejectFirst_3(2) isPrecisionError_examples(1)
        rejectFirst_3(3) isPrecisionError_examples(1) rejectFirst_3(4)])
  then show ?thesis
    by (simp add: handlePrecisionError_def Let_def getPrecision_emptyCache_BTCUSDT)
qed

section \<open>Resolution of a precision\<close>

text \<open>
  For a symbol whose read of the cache is falsy and that is not in the database,
  \<open>getPrecision\<close> returns the precision of the first rule of the ordered pattern list
  that matches the uppercased symbol, and 2 when none matches. This covers every symbol
  without an own cache entry that is not the name of a member of
  \<^verbatim>\<open>Object.prototype\<close>.
\<close>

lemma falsy_read_pattern_rules:
  assumes "\<not> truthy (readCache c s)" and "\<not> isSymbolInDatabase s"
  shows "getPrecision c s = PInt (firstMatchingRule (toUpperCase s))"
  using assms by (simp add: getPrecision_uncached patternPrecision_rules)

lemma no_entry_pattern_rules:
  assumes "c s = None" and "s \<notin> set objectPrototypeMembers" and "\<not> isSymbolInDatabase s"
  shows "getPrecision c s = PInt (firstMatchingRule (toUpperCase s))"
  using assms by (simp add: falsy_read_pattern_rules readCache_own)

lemma pattern_rules_xrpperp:
  "\<not> isSymbolInDatabase ''xrpperp''" "getPrecision emptyCache ''xrpperp'' = PInt 1"
proof -
  show a: "\<not> isSymbolInDatabase ''xrpperp''"
    by (simp add: isSymbolInDatabase_def STEP_SIZE_DATABASE_def toUpperCase_def
        toUpperCase_char_def)
  have "firstMatchingRule (toUpperCase ''xrpperp'') = 1"
    by (simp add: firstMatchingRule_def precisionRules_def toUpperCase_def toUpperCase_char_def)
  moreover have "emptyCache ''xrpperp'' = None" "''xrpperp'' \<notin> set objectPrototypeMembers"
    by (simp_all add: emptyCache_def objectPrototypeMembers_def)
  ultimately show "getPrecision emptyCache ''xrpperp'' = PInt 1"
    using a by (simp add: no_entry_pattern_rules)
qed

text \<open>
  C9 at the symbol \<^verbatim>\<open>constructor\<close> in a fresh process. The symbol has no cache entry
  and is not in the database, its uppercase form is \<^verbatim>\<open>CONSTRUCTOR\<close> and the pattern
  rules give 2 for it; the read \<^verbatim>\<open>this.precisionCache['constructor']\<close> finds the
  function \<^verbatim>\<open>Object\<close> on the prototype, which is truthy, and \<open>getPrecision\<close> returns
  that function. The symbol \<^verbatim>\<open>xrpperp\<close>, in the same process, gets the 1 of the rule
  for XRP.
\<close>

theorem inherited_member_precision:
  "emptyCache ''constructor'' = None
   \<and> \<not> isSymbolInDatabase ''constructor''
   \<and> toUpperCase ''constructor'' = ''CONSTRUCTOR''
   \<and> firstMatchingRule ''CONSTRUCTOR'' = 2
   \<and> getPrecision emptyCache ''constructor'' = PMember ''constructor''
   \<and> showPrecision (getPrecision emptyCache ''constructor'')
       = ''function Object() { [native code] }''
   \<and> emptyCache ''xrpperp'' = None
   \<and> \<not> isSymbolInDatabase ''xrpperp''
   \<and> getPrecision emptyCache ''xrpperp'' = PInt 1"
proof -
  have a: "emptyCache ''constructor'' = None" "emptyCache ''xrpperp'' = None"
    by (simp_all add: emptyCache_def)
  have b: "\<not> isSymbolInDatabase ''constructor''"
    by (simp add: isSymbolInDatabase_def STEP_SIZE_DATABASE_def toUpperCase_def
        toUpperCase_char_def)
  have u: "toUpperCase ''constructor'' = ''CONSTRUCTOR''"
    by (simp add: toUpperCase_def toUpperCase_char_def)
  have c: "firstMatchingRule ''CONSTRUCTOR'' = 2"
    by (simp add: firstMatchingRule_def precisionRules_def)
  have "readCache emptyCache ''constructor'' = Some (PMember ''constructor'')"
    using a by (simp add: readCache_def objectPrototypeMembers_def)
  then have d: "getPrecision emptyCache ''constructor'' = PMember ''constructor''"
    by (simp add: getPrecision_truthy)
  show ?thesis using a b u c d by (simp add: pattern_rules_xrpperp)
qed

text \<open>
  A precision stored under the uppercase spelling \<open>u\<close> is not read by a call with
  another spelling \<open>l\<close> of the symbol: when the read for \<open>l\<close> is falsy, the call returns
  what the database (for the uppercase spelling) or the pattern rules give.
\<close>

lemma readCache_other_key: "l \<noteq> u \<Longrightarrow> readCache (setPrecision c u v) l = readCache c l"
  by (simp add: readCache_def setPrecision_def)

lemma other_spelling_not_cached:
  assumes "toUpperCase l = u" and "l \<noteq> u" and "\<not> truthy (readCache c l)"
  shows "getPrecision (setPrecision c u v) l =
           PInt (if isSymbolInDatabase u then getPrecisionFromDatabase u else patternPrecision l)"
    and "getPrecision (setPrecision c u v) l = getPrecision c l"
proof -
  have r: "\<not> truthy (readCache (setPrecision c u v) l)"
    using assms(2,3) by (simp add: readCache_other_key)
  have d: "isSymbolInDatabase l = isSymbolInDatabase u"
    "getPrecisionFromDatabase l = getPrecisionFromDatabase u"
    using database_uppercase[of l] assms(1) by simp_all
  show "getPrecision (setPrecision c u v) l =
           PInt (if isSymbolInDatabase u then getPrecisionFromDatabase u else patternPrecision l)"
    using getPrecision_uncached[OF r] d by simp
  show "getPrecision (setPrecision c u v) l = getPrecision c l"
    using getPrecision_uncached[OF r] getPrecision_uncached[OF assms(3)] by simp
qed

text \<open>
  With 1 learned for DOTUSDT, the spelling \<^verbatim>\<open>dotusdt\<close> gets the 0 of the database
  entry DOTUSDT (the pattern rules would give 2).
\<close>

lemma other_spelling_dotusdt:
  "getPrecision (setPrecision emptyCache ''DOTUSDT'' (PInt 1)) ''DOTUSDT'' = PInt 1"
  "getPrecision (setPrecision emptyCache ''DOTUSDT'' (PInt 1)) ''dotusdt'' = PInt 0"
  "patternPrecision ''dotusdt'' = 2"
proof -
  show "getPrecision (setPrecision emptyCache ''DOTUSDT'' (PInt 1)) ''DOTUSDT'' = PInt 1"
    by (simp add: getPrecision_cached)
  have u: "toUpperCase ''dotusdt'' = ''DOTUSDT''"
    by (simp add: toUpperCase_def toUpperCase_char_def)
  have r: "\<not> truthy (readCache emptyCache ''dotusdt'')"
    by (simp add: readCache_def emptyCache_def objectPrototypeMembers_def)
  have d: "isSymbolInDatabase ''DOTUSDT''" "getPrecisionFromDatabase ''DOTUSDT'' = 0"
    by (simp_all add: isSymbolInDatabase_def getPrecisionFromDatabase_def getStepSizeInfo_def
        STEP_SIZE_DATABASE_def toUpperCase_def toUpperCase_char_def)
  show "getPrecision (setPrecision emptyCache ''DOTUSDT'' (PInt 1)) ''dotusdt'' = PInt 0"
    using other_spelling_not_cached(1)[OF u _ r, of "PInt 1"] d by simp
  show "patternPrecision ''dotusdt'' = 2"
    by (simp add: patternPrecision_def toUpperCase_def toUpperCase_char_def)
qed

text \<open>
  C10 at the spelling \<^verbatim>\<open>constructor\<close>, with the precision 1 learned under
  \<^verbatim>\<open>CONSTRUCTOR\<close>. The uppercase spelling reads its 1. The lowercase spelling is
  not in the database and the pattern rules give 2 for it, but the call returns the
  function \<^verbatim>\<open>Object\<close> that the read finds on the prototype. With 1 learned under
  \<^verbatim>\<open>DOTUSDT\<close>, the spelling \<^verbatim>\<open>dotusdt\<close> is found in the database through its
  uppercase form and gets the 0 of that entry.
\<close>

theorem inherited_member_for_other_spelling:
  "toUpperCase ''constructor'' = ''CONSTRUCTOR''
   \<and> getPrecision (setPrecision emptyCache ''CONSTRUCTOR'' (PInt 1)) ''CONSTRUCTOR'' = PInt 1
   \<and> \<not> isSymbolInDatabase ''constructor''
   \<and> patternPrecision ''constructor'' = 2
   \<and> getPrecision (setPrecision emptyCache ''CONSTRUCTOR'' (PInt 1)) ''constructor''
       = PMember ''constructor''
   \<and> isSymbolInDatabase ''dotusdt''
   \<and> getPrecision (setPrecision emptyCache ''DOTUSDT'' (PInt 1)) ''DOTUSDT'' = PInt 1
   \<and> getPrecision (setPrecision emptyCache ''DOTUSDT'' (PInt 1)) ''dotusdt'' = PInt 0"
proof -
  have f: "isSymbolInDatabase ''dotusdt''"
    by (simp add: isSymbolInDatabase_def STEP_SIZE_DATABASE_def toUpperCase_def
        toUpperCase_char_def)
  have a: "toUpperCase ''constructor'' = ''CONSTRUCTOR''"
    by (simp add: toUpperCase_def toUpperCase_char_def)
  have b: "getPrecision (setPrecision emptyCache ''CONSTRUCTOR'' (PInt 1)) ''CONSTRUCTOR'' = PInt 1"
    by (simp add: getPrecision_cached)
  have c: "\<not> isSymbolInDatabase ''constructor''"
    by (simp add: isSymbolInDatabase_def STEP_SIZE_DATABASE_def toUpperCase_def
        toUpperCase_char_def)
  have d: "patternPrecision ''constructor'' = 2"
    by (simp add: patternPrecision_def toUpperCase_def toUpperCase_char_def)
  have "readCache (setPrecision emptyCache ''CONSTRUCTOR'' (PInt 1)) ''constructor''
          = Some (PMember ''constructor'')"
    by (simp add: readCache_other_key) (simp add: readCache_def emptyCache_def
        objectPrototypeMembers_def)
  then have e: "getPrecision (setPrecision emptyCache ''CONSTRUCTOR'' (PInt 1)) ''constructor''
          = PMember ''constructor''"
    by (simp add: getPrecision_truthy)
  show ?thesis using a b c d e f by (simp add: other_spelling_dotusdt)
qed

section \<open>The quantity helpers at concrete inputs\<close>

lemma minNotional_tie_value:
  "ensureMinNotional (fl (1 / 10000)) (fl 50000) ''5'' ''0.001'' = Inr (fl (1 / 10000))"
  unfolding ensureMinNotional_def Let_def fl_1e_4 fl_50000 notional_tie
  by (simp add: parseFloat_5 num_ge_def)

text \<open>
  C3, as stated: \<^verbatim>\<open>ensureMinNotional(0.0001, 50000, "5", "0.001")\<close> is not 0.001.
\<close>

theorem ensureMinNotional_tie_counterexample:
  "ensureMinNotional (fl (1 / 10000)) (fl 50000) ''5'' ''0.001'' \<noteq> Inr (fl (1 / 1000))"
  unfolding minNotional_tie_value unfolding fl_1e_4 fl_1e_3 by simp

text \<open>
  C3, amended: the product \<^verbatim>\<open>0.0001 * 50000\<close> is the double 5 exactly, which meets
  the minimum notional 5, so \<^verbatim>\<open>ensureMinNotional(0.0001, 50000, "5", "0.001")\<close> returns
  the quantity 0.0001 unchanged.
\<close>

theorem ensureMinNotional_tie_returns_quantity:
  "num_mul (fl (1 / 10000)) (fl 50000) = Fin 5
   \<and> num_ge (Fin 5) (parseFloat ''5'')
   \<and> ensureMinNotional (fl (1 / 10000)) (fl 50000) ''5'' ''0.001'' = Inr (fl (1 / 10000))"
  unfolding minNotional_tie_value unfolding fl_1e_4 fl_50000 notional_tie parseFloat_5
  by (simp add: num_ge_def)

lemma roundToStepFloor_0_75:
  "roundToStepFloor (fl (75 / 100)) ''0.5'' = Inr (Fin 1)"
  unfolding fl_0_75
  using roundToStepFloor_eval[OF parseFloat_0_5 _ precision_0_5 step_0_75_div step_0_75_mul
      step_0_75_fix]
  by (simp add: parseFloat_1)

lemma roundToStepFloor_below_3e_6:
  "roundToStepFloor (fl (29999999999999997 / 10 ^ 22)) ''0.000001'' = Inr (fl (3 / 1000000))"
  unfolding fl_below_3e_6
  using roundToStepFloor_eval[OF parseFloat_1e_6 _ precision_1e_6 step_3e_6_div step_3e_6_mul
      step_3e_6_fix]
  unfolding parseFloat_3e_6 fl_3e_6 by simp

text \<open>
  C7 at two inputs. With the step 0.5 the quantity 0.75 becomes 1: the precision of the
  step is \<open>round(0.301) = 0\<close>, and \<^verbatim>\<open>(0.5).toFixed(0)\<close> is "1". With the step 0.000001
  the double just below 0.000003 becomes the double 0.000003: the quotient rounds to 3.
  Both results are above the quantity.
\<close>

theorem roundToStepFloor_above_quantity:
  "roundToStepFloor (fl (75 / 100)) ''0.5'' = Inr (Fin 1)
   \<and> \<not> num_le (Fin 1) (fl (75 / 100))
   \<and> roundToStepFloor (fl (29999999999999997 / 10 ^ 22)) ''0.000001'' = Inr (fl (3 / 1000000))
   \<and> \<not> num_le (fl (3 / 1000000)) (fl (29999999999999997 / 10 ^ 22))"
  unfolding roundToStepFloor_0_75 roundToStepFloor_below_3e_6
  unfolding fl_0_75 fl_3e_6 fl_below_3e_6 by simp

lemma roundToStepFloor_0_35:
  "roundToStepFloor (fl (35 / 100)) ''0.1'' = Inr (fl (3 / 10))"
  unfolding fl_0_35
  using roundToStepFloor_eval[OF parseFloat_0_1 _ precision_0_1 step_0_35_div step_0_35_mul
      step_0_35_fix]
  unfolding parseFloat_0_3 fl_0_3 by simp

lemma roundToStepFloor_0_3:
  "roundToStepFloor (fl (3 / 10)) ''0.1'' = Inr (fl (2 / 10))"
  unfolding fl_0_3
  using roundToStepFloor_eval[OF parseFloat_0_1 _ precision_0_1 step_0_3_div step_0_3_mul
      step_0_3_fix]
  unfolding parseFloat_0_2 fl_0_2 by simp

text \<open>
  C8 at the quantity 0.35 and the step 0.1: the first call gives 0.3, the second call,
  on 0.3, gives 0.2, because \<^verbatim>\<open>0.3 / 0.1\<close> is 2.9999999999999996.
\<close>

theorem roundToStepFloor_not_idempotent:
  "roundToStepFloor (fl (35 / 100)) ''0.1'' = Inr (fl (3 / 10))
   \<and> roundToStepFloor (fl (3 / 10)) ''0.1'' = Inr (fl (2 / 10))
   \<and> fl (2 / 10) \<noteq> fl (3 / 10)"
  unfolding roundToStepFloor_0_35 roundToStepFloor_0_3 unfolding fl_0_3 fl_0_2 by simp

section \<open>The range of a precision\<close>

lemma calculatePrecisionFromStepSize_0_01: "calculatePrecisionFromStepSize ''0.01'' = PInt 2"
  unfolding calculatePrecisionFromStepSize_def Let_def parseFloat_0_01 precision_0_01 by simp

lemma calculatePrecisionFromStepSize_1e_8:
  "calculatePrecisionFromStepSize ''0.00000001'' = PInt 8"
  unfolding calculatePrecisionFromStepSize_def Let_def parseFloat_1e_8 precision_1e_8 by simp

lemma detect_btcInfo: "detectPrecisionFromExchangeInfo btcInfo ''BTCUSDT'' = PInt 2"
  by (simp add: detectPrecisionFromExchangeInfo_def btcInfo_def stepSizeOfFilter_def
      calculatePrecisionFromStepSize_0_01)

lemma detect_newInfo: "detectPrecisionFromExchangeInfo newInfo ''NEWUSDT'' = PInt 8"
  by (simp add: detectPrecisionFromExchangeInfo_def newInfo_def stepSizeOfFilter_def
      calculatePrecisionFromStepSize_1e_8)

lemma database_precision_range:
  "0 \<le> getPrecisionFromDatabase s \<and> getPrecisionFromDatabase s \<le> 3"
proof (cases "getStepSizeInfo s")
  case None
  then show ?thesis by (simp add: getPrecisionFromDatabase_def)
next
  case (Some info)
  then have "(toUpperCase s, info) \<in> set STEP_SIZE_DATABASE"
    unfolding getStepSizeInfo_def by (rule map_of_SomeD)
  moreover have "\<forall>entry \<in> set STEP_SIZE_DATABASE.
      0 \<le> precision (snd entry) \<and> precision (snd entry) \<le> 3"
    by (simp add: STEP_SIZE_DATABASE_def)
  ultimately have "0 \<le> precision info \<and> precision info \<le> 3" by fastforce
  then show ?thesis using Some by (simp add: getPrecisionFromDatabase_def)
qed

lemma patternPrecision_range: "0 \<le> patternPrecision s \<and> patternPrecision s \<le> 3"
  by (simp add: patternPrecision_def Let_def)

text \<open>Without a truthy cache entry the precision is within 0..3.\<close>

lemma getPrecision_uncached_range:
  "\<not> truthy (readCache c s) \<Longrightarrow> \<exists>n. getPrecision c s = PInt n \<and> 0 \<le> n \<and> n \<le> 3"
  using database_precision_range[of s] patternPrecision_range[of s]
  by (simp add: getPrecision_uncached)

text \<open>A detected precision is NaN or a non-negative integer: there is no upper bound.\<close>

lemma Math_max_0_nonneg: "to_pval (Math_max (Fin 0) x) = PInt n \<Longrightarrow> 0 \<le> n"
  by (cases x) (auto split: if_splits)

lemma calculatePrecisionFromStepSize_nonneg:
  "calculatePrecisionFromStepSize st = PInt n \<Longrightarrow> 0 \<le> n"
  by (auto simp: calculatePrecisionFromStepSize_def Let_def split: if_splits
      dest: Math_max_0_nonneg)

lemma detectPrecisionFromExchangeInfo_nonneg:
  "detectPrecisionFromExchangeInfo info s = PInt n \<Longrightarrow> 0 \<le> n"
  by (auto simp: detectPrecisionFromExchangeInfo_def Let_def
      split: option.splits if_splits dest: calculatePrecisionFromStepSize_nonneg)

text \<open>
  C4 at the step size 0.00000001 (the default step of \<^verbatim>\<open>extractFilters\<close>): the
  detected precision is 8. A smart placement whose first submission is rejected with the
  precision error stores the 8, and \<open>getPrecision\<close> returns it from then on.
\<close>

theorem detected_precision_above_four:
  "detectPrecisionFromExchangeInfo newInfo ''NEWUSDT'' = PInt 8
   \<and> result (placeMarketOrderSmart ''NEWUSDT'' q (rejectFirst 1) (replyInfo newInfo) emptyCache 0)
       = Inr ()
   \<and> cacheAfter (placeMarketOrderSmart ''NEWUSDT'' q (rejectFirst 1) (replyInfo newInfo)
        emptyCache 0) ''NEWUSDT'' = Some (PInt 8)
   \<and> getPrecision (cacheAfter (placeMarketOrderSmart ''NEWUSDT'' q (rejectFirst 1)
        (replyInfo newInfo) emptyCache 0)) ''NEWUSDT'' = PInt 8"
proof -
  have "placeMarketOrderSmart ''NEWUSDT'' q (rejectFirst 1) (replyInfo newInfo) emptyCache 0 =
     \<lparr>result = Inr (), cacheAfter = setPrecision emptyCache ''NEWUSDT'' (PInt 8), worldAfter = 2,
      attempts = [getSmartQuantity emptyCache ''NEWUSDT'' q,
        getSmartQuantity (setPrecision emptyCache ''NEWUSDT'' (PInt 8)) ''NEWUSDT'' q]\<rparr>"
    by (simp add: placeMarketOrderSmart_def Let_def rejectFirst_def replyInfo_def detect_newInfo
        precisionTest_examples)
  then show ?thesis
    by (simp add: detect_newInfo getPrecision_cached) (simp add: setPrecision_def)
qed

section \<open>The retry ladder\<close>

text \<open>
  C1 at the precision 0. The ladder for BTCUSDT starts at 3 in a fresh process; the
  venue rejects the precisions 3, 2 and 1 and accepts 0, and 0 is stored. The next
  \<open>getPrecision\<close> reads the stored 0 as falsy and answers 3 from the database again.
  A stored precision other than 0 is returned (\<open>getPrecision_cached\<close>).
\<close>

theorem learned_zero_not_returned:
  "result (handlePrecisionError ''BTCUSDT'' q (rejectFirst 3) emptyCache 0) = Inr ()
   \<and> cacheAfter (handlePrecisionError ''BTCUSDT'' q (rejectFirst 3) emptyCache 0) ''BTCUSDT''
       = Some (PInt 0)
   \<and> getPrecision emptyCache ''BTCUSDT'' = PInt 3
   \<and> getPrecision (cacheAfter (handlePrecisionError ''BTCUSDT'' q (rejectFirst 3) emptyCache 0))
         ''BTCUSDT'' = PInt 3"
proof -
  have "\<not> truthy (readCache (setPrecision emptyCache ''BTCUSDT'' (PInt 0)) ''BTCUSDT'')"
    by (simp add: setPrecision_def readCache_def)
  then have "getPrecision (setPrecision emptyCache ''BTCUSDT'' (PInt 0)) ''BTCUSDT'' = PInt 3"
    by (simp add: getPrecision_uncached database_BTCUSDT)
  then show ?thesis
    by (simp add: scenario_E_BTCUSDT getPrecision_emptyCache_BTCUSDT) (simp add: setPrecision_def)
qed

lemma handlePrecisionError_number:
  "getPrecision c symb = PInt p0 \<Longrightarrow>
     handlePrecisionError symb q tf c w = ladder symb q tf (PInt p0) p0 c w []"
  by (simp add: handlePrecisionError_def Let_def)

lemma handlePrecisionError_not_number:
  "\<forall>n. getPrecision c symb \<noteq> PInt n \<Longrightarrow>
     handlePrecisionError symb q tf c w =
       \<lparr>result = Inl (allPrecisionsFailed (getPrecision c symb) symb), cacheAfter = c,
        worldAfter = w, attempts = []\<rparr>"
  by (cases "getPrecision c symb") (simp_all add: handlePrecisionError_def Let_def)

text \<open>
  C2. The ladder calls the trade function at most \<open>p0 + 1\<close> times, where \<open>p0\<close> is the
  precision \<open>getPrecision\<close> gives for the symbol (not at all when that value is not a
  number), and ends either with a result, the cache then being the one before with the
  precision of the accepted attempt as the entry of the symbol, or with an error. When
  the ladder starts at 3, the attempts at 3, 2 and 1 are rejected with precision errors
  and the attempt at 0 is accepted, there are exactly four attempts and the cache holds
  0 for the symbol afterwards.
\<close>

theorem ladder_attempt_bound:
  "length (attempts (handlePrecisionError symb q tf c w))
     \<le> (case getPrecision c symb of PInt p0 \<Rightarrow> nat (p0 + 1) | _ \<Rightarrow> 0)
   \<and> ((\<exists>res p0 p. result (handlePrecisionError symb q tf c w) = Inr res
          \<and> getPrecision c symb = PInt p0 \<and> 0 \<le> p \<and> p \<le> p0
          \<and> cacheAfter (handlePrecisionError symb q tf c w) = c(symb \<mapsto> PInt p))
        \<or> (\<exists>e. result (handlePrecisionError symb q tf c w) = Inl e))
   \<and> (getPrecision c symb = PInt 3
        \<and> tf (roundQuantity q (PInt 3)) w = (Inl e3, w1) \<and> isPrecisionError e3
        \<and> tf (roundQuantity q (PInt 2)) w1 = (Inl e2, w2) \<and> isPrecisionError e2
        \<and> tf (roundQuantity q (PInt 1)) w2 = (Inl e1, w3) \<and> isPrecisionError e1
        \<and> tf (roundQuantity q (PInt 0)) w3 = (Inr res, w4)
        \<longrightarrow> result (handlePrecisionError symb q tf c w) = Inr res
          \<and> attempts (handlePrecisionError symb q tf c w)
              = [roundQuantity q (PInt 3), roundQuantity q (PInt 2), roundQuantity q (PInt 1),
                 roundQuantity q (PInt 0)]
          \<and> length (attempts (handlePrecisionError symb q tf c w)) = 4
          \<and> cacheAfter (handlePrecisionError symb q tf c w) = c(symb \<mapsto> PInt 0)
          \<and> cacheAfter (handlePrecisionError symb q tf c w) symb = Some (PInt 0))"
proof (intro conjI impI)
  show "length (attempts (handlePrecisionError symb q tf c w))
      \<le> (case getPrecision c symb of PInt p0 \<Rightarrow> nat (p0 + 1) | _ \<Rightarrow> 0)"
  proof (cases "\<exists>p0. getPrecision c symb = PInt p0")
    case True
    then obtain p0 where p0: "getPrecision c symb = PInt p0" by blast
    show ?thesis
      using ladder_attempts[of symb q tf "PInt p0" p0 c w "[]"]
      by (simp add: handlePrecisionError_number[OF p0] p0)
  next
    case False
    then show ?thesis by (simp add: handlePrecisionError_not_number)
  qed
next
  show "(\<exists>res p0 p. result (handlePrecisionError symb q tf c w) = Inr res
          \<and> getPrecision c symb = PInt p0 \<and> 0 \<le> p \<and> p \<le> p0
          \<and> cacheAfter (handlePrecisionError symb q tf c w) = c(symb \<mapsto> PInt p))
        \<or> (\<exists>e. result (handlePrecisionError symb q tf c w) = Inl e)"
  proof (cases "result (handlePrecisionError symb q tf c w)")
    case (Inl e)
    then show ?thesis by blast
  next
    case (Inr res)
    have "\<exists>p0. getPrecision c symb = PInt p0"
    proof (rule ccontr)
      assume "\<not> (\<exists>p0. getPrecision c symb = PInt p0)"
      then show False using Inr by (simp add: handlePrecisionError_not_number)
    qed
    then obtain p0 where p0: "getPrecision c symb = PInt p0" by blast
    have "result (ladder symb q tf (PInt p0) p0 c w []) = Inr res"
      using Inr by (simp add: handlePrecisionError_number[OF p0])
    from ladder_success_cache[OF this] obtain p where p: "0 \<le> p" "p \<le> p0"
      "cacheAfter (ladder symb q tf (PInt p0) p0 c w []) = setPrecision c symb (PInt p)"
      by blast
    have "setPrecision c symb (PInt p) = c(symb \<mapsto> PInt p)"
      using getPrecision_number_writable[OF p0] by (rule setPrecision_written)
    then have "cacheAfter (handlePrecisionError symb q tf c w) = c(symb \<mapsto> PInt p)"
      using p(3) by (simp add: handlePrecisionError_number[OF p0])
    then show ?thesis using Inr p0 p(1,2) by blast
  qed
next
  assume a: "getPrecision c symb = PInt 3
        \<and> tf (roundQuantity q (PInt 3)) w = (Inl e3, w1) \<and> isPrecisionError e3
        \<and> tf (roundQuantity q (PInt 2)) w1 = (Inl e2, w2) \<and> isPrecisionError e2
        \<and> tf (roundQuantity q (PInt 1)) w2 = (Inl e1, w3) \<and> isPrecisionError e1
        \<and> tf (roundQuantity q (PInt 0)) w3 = (Inr res, w4)"
  then have p0: "getPrecision c symb = PInt 3" by simp
  have "setPrecision c symb (PInt 0) = c(symb \<mapsto> PInt 0)"
    using getPrecision_number_writable[OF p0] by (rule setPrecision_written)
  then have r: "handlePrecisionError symb q tf c w =
     \<lparr>result = Inr res, cacheAfter = c(symb \<mapsto> PInt 0), worldAfter = w4,
      attempts = [roundQuantity q (PInt 3), roundQuantity q (PInt 2), roundQuantity q (PInt 1),
        roundQuantity q (PInt 0)]\<rparr>"
    using a ladder_scenario_E[of tf q w e3 w1 e2 w2 e1 w3 res w4 symb "PInt 3" c]
    by (simp add: handlePrecisionError_number[OF p0])
  show "result (handlePrecisionError symb q tf c w) = Inr res" by (simp add: r)
  show "attempts (handlePrecisionError symb q tf c w)
      = [roundQuantity q (PInt 3), roundQuantity q (PInt 2), roundQuantity q (PInt 1),
         roundQuantity q (PInt 0)]" by (simp add: r)
  show "length (attempts (handlePrecisionError symb q tf c w)) = 4" by (simp add: r)
  show "cacheAfter (handlePrecisionError symb q tf c w) = c(symb \<mapsto> PInt 0)"
    by (simp add: r)
  show "cacheAfter (handlePrecisionError symb q tf c w) symb = Some (PInt 0)"
    by (simp add: r)
qed

theorem ladder_attempt_bound_witness:
  "(getPrecision emptyCache ''BTCUSDT'' = PInt 3
    \<and> rejectFirst 3 (roundQuantity (Fin 1) (PInt 3)) 0 = (Inl precisionRejection, 1)
    \<and> isPrecisionError precisionRejection
    \<and> rejectFirst 3 (roundQuantity (Fin 1) (PInt 2)) 1 = (Inl precisionRejection, 2)
    \<and> isPrecisionError precisionRejection
    \<and> rejectFirst 3 (roundQuantity (Fin 1) (PInt 1)) 2 = (Inl precisionRejection, 3)
    \<and> isPrecisionError precisionRejection
    \<and> rejectFirst 3 (roundQuantity (Fin 1) (PInt 0)) 3 = (Inr (), 4))
   \<and> (case getPrecision emptyCache ''BTCUSDT'' of PInt p0 \<Rightarrow> nat (p0 + 1) | _ \<Rightarrow> 0) = 4
   \<and> emptyCache ''BTCUSDT'' = None
   \<and> (result (handlePrecisionError ''BTCUSDT'' (Fin 1) (rejectFirst 3) emptyCache 0) = Inr ()
    \<and> length (attempts (handlePrecisionError ''BTCUSDT'' (Fin 1) (rejectFirst 3) emptyCache 0)) = 4
    \<and> cacheAfter (handlePrecisionError ''BTCUSDT'' (Fin 1) (rejectFirst 3) emptyCache 0)
         ''BTCUSDT'' = Some (PInt 0))"
proof -
  have h: "getPrecision emptyCache ''BTCUSDT'' = PInt 3
    \<and> rejectFirst 3 (roundQuantity (Fin 1) (PInt 3)) 0 = (Inl precisionRejection, 1)
    \<and> isPrecisionError precisionRejection
    \<and> rejectFirst 3 (roundQuantity (Fin 1) (PInt 2)) 1 = (Inl precisionRejection, 2)
    \<and> isPrecisionError precisionRejection
    \<and> rejectFirst 3 (roundQuantity (Fin 1) (PInt 1)) 2 = (Inl precisionRejection, 3)
    \<and> isPrecisionError precisionRejection
    \<and> rejectFirst 3 (roundQuantity (Fin 1) (PInt 0)) 3 = (Inr (), 4)"
    by (simp add: getPrecision_emptyCache_BTCUSDT rejectFirst_def isPrecisionError_examples)
  have b: "(case getPrecision emptyCache ''BTCUSDT'' of PInt p0 \<Rightarrow> nat (p0 + 1) | _ \<Rightarrow> 0) = 4"
    by (simp add: getPrecision_emptyCache_BTCUSDT)
  have e: "emptyCache ''BTCUSDT'' = None" by (simp add: emptyCache_def)
  from ladder_attempt_bound[of "''BTCUSDT''" "Fin 1" "rejectFirst 3" emptyCache 0
      precisionRejection 1 precisionRejection 2 precisionRejection 3 "()" 4] h b e
  show ?thesis by blast
qed

section \<open>Smart placement and the cache\<close>

lemma handlePrecisionError_failure_cache:
  "result (handlePrecisionError symb q tf c w) = Inl e \<Longrightarrow>
     cacheAfter (handlePrecisionError symb q tf c w) = c"
  by (cases "getPrecision c symb")
    (simp_all add: handlePrecisionError_def Let_def ladder_failure_cache)

lemma handlePrecisionError_rejectAll:
  assumes "getPrecision c symb = PInt p0" "p0 \<le> 100"
  shows "result (handlePrecisionError symb q rejectAll c w)
           = Inl (allPrecisionsFailed (PInt p0) symb)"
    and "cacheAfter (handlePrecisionError symb q rejectAll c w) = c"
    and "length (attempts (handlePrecisionError symb q rejectAll c w)) = nat (p0 + 1)"
proof -
  note l = ladder_allRejected[where tf = rejectAll and q = q and w = w and symb = symb
        and sp = "PInt p0" and c = c and sub = "[]" and p = p0,
        OF allRejected_rejectAll assms(2)]
  show r: "result (handlePrecisionError symb q rejectAll c w)
           = Inl (allPrecisionsFailed (PInt p0) symb)"
    using l by (simp add: handlePrecisionError_def Let_def assms(1))
  show "cacheAfter (handlePrecisionError symb q rejectAll c w) = c"
    using r by (rule handlePrecisionError_failure_cache)
  show "length (attempts (handlePrecisionError symb q rejectAll c w)) = nat (p0 + 1)"
    using l by (simp add: handlePrecisionError_def Let_def assms(1))
qed

lemma smart_rejectAll_BTCUSDT:
  "result (placeMarketOrderSmart ''BTCUSDT'' q rejectAll (replyInfo btcInfo) emptyCache 0)
     = Inl (allPrecisionsFailed (PInt 2) ''BTCUSDT'')"
  "cacheAfter (placeMarketOrderSmart ''BTCUSDT'' q rejectAll (replyInfo btcInfo) emptyCache 0)
     = setPrecision emptyCache ''BTCUSDT'' (PInt 2)"
  "length (attempts (placeMarketOrderSmart ''BTCUSDT'' q rejectAll (replyInfo btcInfo) emptyCache 0))
     = 5"
proof -
  let ?c1 = "setPrecision emptyCache ''BTCUSDT'' (PInt 2)"
  have p: "getPrecision ?c1 ''BTCUSDT'' = PInt 2" by (simp add: getPrecision_cached)
  have s: "placeMarketOrderSmart ''BTCUSDT'' q rejectAll (replyInfo btcInfo) emptyCache 0 =
     afterAttempts [getSmartQuantity emptyCache ''BTCUSDT'' q, getSmartQuantity ?c1 ''BTCUSDT'' q]
       (handlePrecisionError ''BTCUSDT'' q rejectAll ?c1 (Suc (Suc 0)))"
    by (simp add: placeMarketOrderSmart_def Let_def rejectAll_def replyInfo_def detect_btcInfo
        precisionTest_examples)
  show "result (placeMarketOrderSmart ''BTCUSDT'' q rejectAll (replyInfo btcInfo) emptyCache 0)
     = Inl (allPrecisionsFailed (PInt 2) ''BTCUSDT'')"
    unfolding s using handlePrecisionError_rejectAll(1)[of ?c1 "''BTCUSDT''" 2 q "Suc (Suc 0)"]
    by (simp add: afterAttempts_def p)
  show "cacheAfter (placeMarketOrderSmart ''BTCUSDT'' q rejectAll (replyInfo btcInfo) emptyCache 0)
     = ?c1"
    unfolding s using handlePrecisionError_rejectAll(2)[of ?c1 "''BTCUSDT''" 2 q "Suc (Suc 0)"]
    by (simp add: afterAttempts_def p)
  show "length (attempts (placeMarketOrderSmart ''BTCUSDT'' q rejectAll (replyInfo btcInfo)
      emptyCache 0)) = 5"
    unfolding s using handlePrecisionError_rejectAll(3)[of ?c1 "''BTCUSDT''" 2 q "Suc (Suc 0)"]
    by (simp add: afterAttempts_def p)
qed

text \<open>
  C5, as stated: a smart placement of BTCUSDT in a fresh process, at a venue that rejects
  every submission with the precision error and reports the step size 0.01. All five
  submissions fail, the placement ends with the aggregate error, and the cache holds the
  detected precision 2 for the symbol.
\<close>

theorem smart_placement_cache_counterexample:
  "result (placeMarketOrderSmart ''BTCUSDT'' (Fin 1) rejectAll (replyInfo btcInfo) emptyCache 0)
     = Inl (allPrecisionsFailed (PInt 2) ''BTCUSDT'')
   \<and> cacheAfter (placeMarketOrderSmart ''BTCUSDT'' (Fin 1) rejectAll (replyInfo btcInfo)
        emptyCache 0) ''BTCUSDT'' = Some (PInt 2)
   \<and> emptyCache ''BTCUSDT'' = None
   \<and> cacheAfter (placeMarketOrderSmart ''BTCUSDT'' (Fin 1) rejectAll (replyInfo btcInfo)
        emptyCache 0) \<noteq> emptyCache"
proof -
  have "setPrecision emptyCache ''BTCUSDT'' (PInt 2) ''BTCUSDT'' \<noteq> emptyCache ''BTCUSDT''"
    by (simp add: setPrecision_def emptyCache_def)
  then have "setPrecision emptyCache ''BTCUSDT'' (PInt 2) \<noteq> emptyCache" by metis
  then show ?thesis
    by (simp add: smart_rejectAll_BTCUSDT) (simp add: setPrecision_def emptyCache_def)
qed

text \<open>
  C5, amended: the retry ladder writes the cache only after a successful submission, so
  a ladder that ends with an error leaves the cache as it found it. A smart placement
  also writes the cache in its detection pass, before the submission at the detected
  precision: when the placement ends with an error, the cache is the one before the
  placement, or that cache with the symbol set to the precision detected from a
  metadata reply.
\<close>

theorem cache_written_by_success_or_detection:
  "(result (handlePrecisionError symb q tf c w) = Inl e \<longrightarrow>
      cacheAfter (handlePrecisionError symb q tf c w) = c)
   \<and> (result (placeMarketOrderSmart symb q tf gei c w) = Inl e' \<longrightarrow>
      cacheAfter (placeMarketOrderSmart symb q tf gei c w) = c
      \<or> (\<exists>info w1 w2. gei w1 = (Inr info, w2)
            \<and> cacheAfter (placeMarketOrderSmart symb q tf gei c w)
                = setPrecision c symb (detectPrecisionFromExchangeInfo info symb)))"
proof (intro conjI impI)
  assume "result (handlePrecisionError symb q tf c w) = Inl e"
  then show "cacheAfter (handlePrecisionError symb q tf c w) = c"
    by (rule handlePrecisionError_failure_cache)
next
  assume r: "result (placeMarketOrderSmart symb q tf gei c w) = Inl e'"
  obtain out1 w1 where t1: "tf (getSmartQuantity c symb q) w = (out1, w1)"
    by (cases "tf (getSmartQuantity c symb q) w")
  show "cacheAfter (placeMarketOrderSmart symb q tf gei c w) = c
      \<or> (\<exists>info w1 w2. gei w1 = (Inr info, w2)
            \<and> cacheAfter (placeMarketOrderSmart symb q tf gei c w)
                = setPrecision c symb (detectPrecisionFromExchangeInfo info symb))"
  proof (cases out1)
    case (Inr res)
    then show ?thesis using t1 by (simp add: placeMarketOrderSmart_def Let_def)
  next
    case (Inl e1)
    consider (test_throws) typeError where "precisionTest e1 = Inl typeError"
      | (other) "precisionTest e1 = Inr False" | (precision) "precisionTest e1 = Inr True"
      by (cases "precisionTest e1") auto
    then show ?thesis
    proof cases
      case (test_throws typeError)
      then show ?thesis using t1 Inl by (simp add: placeMarketOrderSmart_def Let_def)
    next
      case other
      then show ?thesis using t1 Inl by (simp add: placeMarketOrderSmart_def Let_def)
    next
      case precision
      obtain out2 w2 where t2: "gei w1 = (out2, w2)" by (cases "gei w1")
      show ?thesis
      proof (cases out2)
        case (Inl detectionError)
        then have s: "placeMarketOrderSmart symb q tf gei c w =
            afterAttempts [getSmartQuantity c symb q] (handlePrecisionError symb q tf c w2)"
          using t1 \<open>out1 = Inl e1\<close> precision t2 by (simp add: placeMarketOrderSmart_def Let_def)
        from r have "result (handlePrecisionError symb q tf c w2) = Inl e'"
          unfolding s by (simp add: afterAttempts_def)
        then have "cacheAfter (handlePrecisionError symb q tf c w2) = c"
          by (rule handlePrecisionError_failure_cache)
        then show ?thesis unfolding s by (simp add: afterAttempts_def)
      next
        case (Inr info)
        let ?c1 = "setPrecision c symb (detectPrecisionFromExchangeInfo info symb)"
        obtain out3 w3 where t3: "tf (getSmartQuantity ?c1 symb q) w2 = (out3, w3)"
          by (cases "tf (getSmartQuantity ?c1 symb q) w2")
        have "cacheAfter (placeMarketOrderSmart symb q tf gei c w) = ?c1"
        proof (cases out3)
          case (Inr res)
          then show ?thesis
            using t1 \<open>out1 = Inl e1\<close> precision t2 \<open>out2 = Inr info\<close> t3
            by (simp add: placeMarketOrderSmart_def Let_def)
        next
          case (Inl detectionError)
          then have s: "placeMarketOrderSmart symb q tf gei c w =
              afterAttempts [getSmartQuantity c symb q, getSmartQuantity ?c1 symb q]
                (handlePrecisionError symb q tf ?c1 w3)"
            using t1 \<open>out1 = Inl e1\<close> precision t2 \<open>out2 = Inr info\<close> t3
            by (simp add: placeMarketOrderSmart_def Let_def)
          from r have "result (handlePrecisionError symb q tf ?c1 w3) = Inl e'"
            unfolding s by (simp add: afterAttempts_def)
          then have "cacheAfter (handlePrecisionError symb q tf ?c1 w3) = ?c1"
            by (rule handlePrecisionError_failure_cache)
          then show ?thesis unfolding s by (simp add: afterAttempts_def)
        qed
        then show ?thesis using t2 \<open>out2 = Inr info\<close> by blast
      qed
    qed
  qed
qed

theorem cache_written_by_success_or_detection_witness:
  "(result (handlePrecisionError ''BTCUSDT'' (Fin 1) rejectAll emptyCache 0)
      = Inl (allPrecisionsFailed (PInt 3) ''BTCUSDT'')
    \<and> result (placeMarketOrderSmart ''BTCUSDT'' (Fin 1) rejectAll (replyInfo btcInfo) emptyCache 0)
      = Inl (allPrecisionsFailed (PInt 2) ''BTCUSDT''))
   \<and> cacheAfter (handlePrecisionError ''BTCUSDT'' (Fin 1) rejectAll emptyCache 0) = emptyCache
   \<and> (cacheAfter (placeMarketOrderSmart ''BTCUSDT'' (Fin 1) rejectAll (replyInfo btcInfo)
          emptyCache 0) = emptyCache
      \<or> (\<exists>info w1 w2. replyInfo btcInfo w1 = (Inr info, w2)
            \<and> cacheAfter (placeMarketOrderSmart ''BTCUSDT'' (Fin 1) rejectAll (replyInfo btcInfo)
                 emptyCache 0)
                = setPrecision emptyCache ''BTCUSDT''
                    (detectPrecisionFromExchangeInfo info ''BTCUSDT'')))"
proof -
  have h1: "result (handlePrecisionError ''BTCUSDT'' (Fin 1) rejectAll emptyCache 0)
      = Inl (allPrecisionsFailed (PInt 3) ''BTCUSDT'')"
    using handlePrecisionError_rejectAll(1)[of emptyCache "''BTCUSDT''" 3 "Fin 1" 0]
    by (simp add: getPrecision_emptyCache_BTCUSDT)
  have h2: "result (placeMarketOrderSmart ''BTCUSDT'' (Fin 1) rejectAll (replyInfo btcInfo)
      emptyCache 0) = Inl (allPrecisionsFailed (PInt 2) ''BTCUSDT'')"
    by (rule smart_rejectAll_BTCUSDT(1))
  from cache_written_by_success_or_detection[of "''BTCUSDT''" "Fin 1" rejectAll emptyCache 0
      "allPrecisionsFailed (PInt 3) ''BTCUSDT''" "replyInfo btcInfo" "allPrecisionsFailed (PInt 2) ''BTCUSDT''"]
    h1 h2
  show ?thesis by blast
qed

section \<open>Errors of the trade function\<close>








text \<open>
  The precision test reads \<^verbatim>\<open>error.response.data.msg.includes\<close>. For a payload with
  the code -1111 and no message the test itself throws, inside the catch block, and the
  ladder ends with that TypeError in place of the venue's error.
\<close>

lemma bare_rejection_type_error:
  assumes "0 \<le> p" "p \<le> 100" "tf (roundQuantity q (PInt p)) w = (Inl bareRejection, w')"
  shows "ladder symb q tf sp p c w sub =
     \<lparr>result = Inl (TypeError ''Cannot read properties of undefined (reading 'includes')''),
      cacheAfter = c, worldAfter = w', attempts = sub @ [roundQuantity q (PInt p)]\<rparr>"
  using assms(1,2,3) precisionTest_examples(3) by (rule ladder_test_throws)




end
